theory Spec2Isabelle
  imports
    Main
    "HOL-Library.Multiset"
    "HOL-Library.Char_ord"
    "HOL-Library.List_Lexorder"
    "HOL-Library.Product_Lexorder"
begin

section \<open>Go strings and the library functions the generator calls\<close>

text \<open>
  A Go string is a sequence of bytes; it is modelled as \<^typ>\<open>string\<close>, a list of
  8-bit characters.  Go's \<^verbatim>\<open><\<close> on strings is the lexicographic order of the bytes,
  which is the order that \<^theory_text>\<open>List_Lexorder\<close> and \<^theory_text>\<open>Char_ord\<close> put on
  \<^typ>\<open>string\<close>.
\<close>

text \<open>
  \<^verbatim>\<open>strings.Compare(a, b)\<close>: 0 if the strings are equal, -1 if \<^verbatim>\<open>a < b\<close>, +1
  otherwise.
\<close>

definition strings_Compare :: "string \<Rightarrow> string \<Rightarrow> int" where
  "strings_Compare a b = (if a = b then 0 else if a < b then - 1 else 1)"

text \<open>\<^verbatim>\<open>strings.Join(elems, sep)\<close>.\<close>

fun strings_Join :: "string list \<Rightarrow> string \<Rightarrow> string" where
  "strings_Join [] sep = []"
| "strings_Join [x] sep = x"
| "strings_Join (x # y # ys) sep = x @ sep @ strings_Join (y # ys) sep"

subsection \<open>\<^verbatim>\<open>sort.SliceStable\<close>\<close>

text \<open>
  The standard library sorts a slice of at most 20 elements by one run of its insertion
  sort, \<^verbatim>\<open>insertionSort_func(data, 0, n)\<close>:
  \<^verbatim>\<open>
  for i := a + 1; i < b; i++ {
      for j := i; j > a && data.Less(j, j-1); j-- {
          data.Swap(j, j-1)
      }
  }
  \<close>
  Longer slices are sorted in blocks of 20 by the same insertion sort and the blocks are
  merged by \<^verbatim>\<open>symMerge_func\<close>, which keeps equal elements in order; the documented
  contract of \<^verbatim>\<open>sort.SliceStable\<close> is a stable sort for a \<^verbatim>\<open>less\<close> that is a strict
  weak order, and the result of a stable sort is unique.  The model is the insertion sort.

  \<open>shiftLeft lessFn x acc\<close> is the inner loop: \<open>acc\<close> holds the elements at the indices
  below \<open>i\<close>, the one at \<open>j-1\<close> first, and \<open>x\<close> is swapped towards the front as long
  as it is less than its left neighbour.
\<close>

fun shiftLeft :: "('a \<Rightarrow> 'a \<Rightarrow> bool) \<Rightarrow> 'a \<Rightarrow> 'a list \<Rightarrow> 'a list" where
  "shiftLeft lessFn x [] = [x]"
| "shiftLeft lessFn x (y # ys) =
     (if lessFn x y then y # shiftLeft lessFn x ys else x # y # ys)"

fun insertionSort_func :: "('a \<Rightarrow> 'a \<Rightarrow> bool) \<Rightarrow> 'a list \<Rightarrow> 'a list \<Rightarrow> 'a list" where
  "insertionSort_func lessFn acc [] = rev acc"
| "insertionSort_func lessFn acc (x # xs) = insertionSort_func lessFn (shiftLeft lessFn x acc) xs"

definition SliceStable :: "'a list \<Rightarrow> ('a \<Rightarrow> 'a \<Rightarrow> bool) \<Rightarrow> 'a list" where
  "SliceStable xs lessFn = insertionSort_func lessFn [] xs"

section \<open>The step metadata (package \<^verbatim>\<open>config\<close>)\<close>

text \<open>
  The dynamic values an \<^verbatim>\<open>interface{}\<close> field of the metadata holds: the default of a
  parameter, a possible value, an entry of an output resource.  \<open>VCondSlice\<close> is
  \<^verbatim>\<open>[]conditionDefault\<close> (a \<^verbatim>\<open>conditionDefault\<close> has the fields \<^verbatim>\<open>key\<close>,
  \<^verbatim>\<open>value\<close> and \<^verbatim>\<open>def\<close>), \<open>VIfaceSlice\<close> is \<^verbatim>\<open>[]interface{}\<close>, \<open>VStringMap\<close> is
  \<^verbatim>\<open>map[string]string\<close> with its entries in the order a \<^verbatim>\<open>range\<close> visits them, and
  \<open>VOther s\<close> is a value of any other dynamic type, kept as the text \<open>s\<close> that
  \<^verbatim>\<open>%v\<close> prints for it.
\<close>

datatype gvalue =
    VNil
  | VBool bool
  | VString string
  | VStringSlice "string list"
  | VStringMap "(string \<times> string) list"
  | VCond string string gvalue
  | VCondSlice "(string \<times> string \<times> gvalue) list"
  | VIfaceSlice "gvalue list"
  | VOther string

record Alias =
  al_Name :: string
  al_Deprecated :: bool

record ResourceReference =
  rr_Name :: string
  rr_Type :: string
  rr_Param :: string
  rr_Default :: string
  rr_Aliases :: "Alias list"

record ParameterDependence =
  pd_Name :: string
  pd_Value :: string

text \<open>
  \<^verbatim>\<open>config.StepParameters\<close>, with the fields this code reads.  A nil
  \<^verbatim>\<open>PossibleValues\<close> is \<open>None\<close>.
\<close>

record StepParameters =
  Name :: string
  Description :: string
  LongDescription :: string
  ResourceRef :: "ResourceReference list"
  Scope :: "string list"
  Type :: string
  Mandatory :: bool
  Default :: gvalue
  PossibleValues :: "gvalue list option"
  Aliases :: "Alias list"
  Secret :: bool
  MandatoryIf :: "ParameterDependence list"
  DeprecationMessage :: string

record StepSecrets =
  sec_Name :: string
  sec_Description :: string
  sec_Type :: string
  sec_Aliases :: "Alias list"

record Container =
  c_Name :: string
  c_Image :: string

record StepResources =
  res_Name :: string
  res_Type :: string
  res_Parameters :: "(string \<times> gvalue) list list"

record StepMetadata =
  md_Name :: string
  md_Aliases :: "Alias list"
  md_Description :: string

text \<open>A nil \<^verbatim>\<open>Parameters\<close> slice is \<open>None\<close>; an empty one is \<open>Some []\<close>.\<close>

record StepInputs =
  Parameters :: "StepParameters list option"
  Secrets :: "StepSecrets list"

record StepOutputs =
  Resources :: "StepResources list"

record StepSpec =
  Inputs :: StepInputs
  Containers :: "Container list"
  Outputs :: StepOutputs

record StepData =
  Metadata :: StepMetadata
  Spec :: StepSpec

text \<open>The elements a \<^verbatim>\<open>range\<close> over the parameter slice visits: none for a nil slice.\<close>

definition rangeParameters :: "StepData \<Rightarrow> StepParameters list" where
  "rangeParameters stepData =
     (case Parameters (Inputs (Spec stepData)) of None \<Rightarrow> [] | Some ps \<Rightarrow> ps)"

text \<open>Storing a slice in \<^verbatim>\<open>stepData.Spec.Inputs.Parameters\<close>.\<close>

definition setParameters :: "StepData \<Rightarrow> StepParameters list option \<Rightarrow> StepData" where
  "setParameters stepData ps =
     stepData\<lparr>Spec := (Spec stepData)\<lparr>Inputs := (Inputs (Spec stepData))\<lparr>Parameters := ps\<rparr>\<rparr>\<rparr>"

section \<open>The documentation generator: sorting the parameters\<close>

text \<open>
  The condition \<^verbatim>\<open>parameters[i].Mandatory || len(parameters[i].MandatoryIf) > 0\<close> of
  the comparison function.
\<close>

definition isMandatory :: "StepParameters \<Rightarrow> bool" where
  "isMandatory p = (Mandatory p \<or> length (MandatoryIf p) > 0)"

text \<open>The comparison function of the branch \<^verbatim>\<open>considerMandatory\<close>.\<close>

definition lessMandatoryName :: "StepParameters \<Rightarrow> StepParameters \<Rightarrow> bool" where
  "lessMandatoryName pi pj =
     (if isMandatory pi = isMandatory pj then strings_Compare (Name pi) (Name pj) < 0
      else if isMandatory pi then True
      else False)"

text \<open>The comparison function of the other branch.\<close>

definition lessName :: "StepParameters \<Rightarrow> StepParameters \<Rightarrow> bool" where
  "lessName pi pj = (strings_Compare (Name pi) (Name pj) < 0)"

text \<open>
  \<^verbatim>\<open>sortStepParameters\<close> sorts the slice in place, so the metadata it is given
  changes: the model returns the metadata after the call.
\<close>

definition sortStepParameters :: "StepData \<Rightarrow> bool \<Rightarrow> StepData" where
  "sortStepParameters stepData considerMandatory =
     (case Parameters (Inputs (Spec stepData)) of
        None \<Rightarrow> stepData
      | Some parameters \<Rightarrow>
          (if considerMandatory
           then setParameters stepData (Some (SliceStable parameters lessMandatoryName))
           else setParameters stepData (Some (SliceStable parameters lessName))))"

section \<open>The documentation generator: rendering\<close>

subsection \<open>What the generator takes from outside these files\<close>

text \<open>
  The package variable \<^verbatim>\<open>stepParameterNames\<close>, the constants
  \<^verbatim>\<open>config.VaultRootPaths\<close> and \<^verbatim>\<open>config.RefTypeSystemTrustSecret\<close> and the library
  function \<^verbatim>\<open>strings.ToLower\<close> are parameters of the model.
\<close>

record genv =
  stepParameterNames :: "string list"
  VaultRootPaths :: "string list"
  RefTypeSystemTrustSecret :: string
  strings_ToLower :: "string \<Rightarrow> string"

text \<open>
  Modelled from the spec: the helper \<^verbatim>\<open>contains\<close> of package \<^verbatim>\<open>generator\<close> is not
  among the source files; it is modelled as its name and its calls say, the test whether
  a string is an element of a slice of strings.
\<close>

fun contains :: "string list \<Rightarrow> string \<Rightarrow> bool" where
  "contains [] s = False"
| "contains (i # v) s = (if i = s then True else contains v s)"

text \<open>
  Modelled from the spec: the helper \<^verbatim>\<open>ifThenElse\<close> of package \<^verbatim>\<open>generator\<close> is
  not among the source files; it is modelled as its name and its calls say, the choice
  between two strings by a condition.
\<close>

definition ifThenElse :: "bool \<Rightarrow> string \<Rightarrow> string \<Rightarrow> string" where
  "ifThenElse condition positive negative = (if condition then positive else negative)"

text \<open>
  Modelled from the spec: the method \<^verbatim>\<open>GetReference\<close> of \<^verbatim>\<open>config.StepParameters\<close>
  is not among the source files; it is modelled as the first resource reference of the
  parameter with the given type, nil (\<open>None\<close>) when there is none.
\<close>

fun findReference :: "ResourceReference list \<Rightarrow> string \<Rightarrow> ResourceReference option" where
  "findReference [] refType = None"
| "findReference (r # rs) refType =
     (if refType = rr_Type r then Some r else findReference rs refType)"

definition GetReference :: "StepParameters \<Rightarrow> string \<Rightarrow> ResourceReference option" where
  "GetReference m refType = findReference (ResourceRef m) refType"

subsection \<open>\<^verbatim>\<open>fmt\<close> and \<^verbatim>\<open>path\<close>\<close>

text \<open>
  What the verb \<^verbatim>\<open>%v\<close> prints for a dynamic value: a string as it is, a slice as its
  elements between brackets, a map as its entries in the order of the keys, a struct as
  its fields between braces, a nil interface as \<^verbatim>\<open><nil>\<close>.
\<close>

fun fmt_v :: "gvalue \<Rightarrow> string" where
  "fmt_v VNil = ''<nil>''"
| "fmt_v (VBool b) = (if b then ''true'' else ''false'')"
| "fmt_v (VString s) = s"
| "fmt_v (VStringSlice xs) = ''['' @ strings_Join xs '' '' @ '']''"
| "fmt_v (VStringMap kvs) =
     ''map['' @ strings_Join (map (\<lambda>kv. fst kv @ '':'' @ snd kv) (sort_key fst kvs)) '' '' @ '']''"
| "fmt_v (VCond k v d) = ''{'' @ k @ '' '' @ v @ '' '' @ fmt_v d @ ''}''"
| "fmt_v (VCondSlice cs) =
     ''['' @ strings_Join
        (map (\<lambda>c. ''{'' @ fst c @ '' '' @ fst (snd c) @ '' '' @ fmt_v (snd (snd c)) @ ''}'') cs)
        '' '' @ '']''"
| "fmt_v (VIfaceSlice vs) = ''['' @ strings_Join (map fmt_v vs) '' '' @ '']''"
| "fmt_v (VOther s) = s"

text \<open>The pieces of a path between its slashes.\<close>

fun splitSlash :: "string \<Rightarrow> string \<Rightarrow> string list" where
  "splitSlash cur [] = [rev cur]"
| "splitSlash cur (c # cs) =
     (if c = CHR ''/'' then rev cur # splitSlash [] cs else splitSlash (c # cur) cs)"

text \<open>
  \<^verbatim>\<open>path.Clean\<close>, piece by piece: an empty piece and \<^verbatim>\<open>.\<close> are dropped, \<^verbatim>\<open>..\<close>
  removes the piece before it, is dropped at the root and is kept at the start of a path
  that is not rooted.  \<open>out\<close> holds the pieces written so far, the last one first.
\<close>

fun cleanPieces :: "bool \<Rightarrow> string list \<Rightarrow> string list \<Rightarrow> string list" where
  "cleanPieces rooted out [] = rev out"
| "cleanPieces rooted out (c # cs) =
     (if c = [] \<or> c = ''.'' then cleanPieces rooted out cs
      else if c = ''..'' then
        (case out of
           [] \<Rightarrow> if rooted then cleanPieces rooted [] cs else cleanPieces rooted [''..''] cs
         | p # ps \<Rightarrow>
             if p = ''..'' then cleanPieces rooted (''..'' # out) cs
             else cleanPieces rooted ps cs)
      else cleanPieces rooted (c # out) cs)"

definition path_Clean :: "string \<Rightarrow> string" where
  "path_Clean path =
     (if path = [] then ''.''
      else
        (let rooted = (hd path = CHR ''/'');
             pieces = cleanPieces rooted [] (splitSlash [] path)
         in if rooted then ''/'' @ strings_Join pieces ''/''
            else if pieces = [] then ''.''
            else strings_Join pieces ''/''))"

text \<open>
  \<^verbatim>\<open>path.Join\<close>, and \<^verbatim>\<open>filepath.Join\<close> where the separator is the slash: the elements
  from the first non-empty one on, joined by slashes and cleaned; the empty string when
  every element is empty.
\<close>

definition path_Join :: "string list \<Rightarrow> string" where
  "path_Join elem =
     (case dropWhile (\<lambda>e. e = []) elem of
        [] \<Rightarrow> []
      | e # es \<Rightarrow> path_Clean (strings_Join (e # es) ''/''))"

subsection \<open>Constants of the generator\<close>

definition vaultBadge :: string where
  "vaultBadge = ''![Vault](https://img.shields.io/badge/-Vault-lightgrey)''"

definition jenkinsOnlyBadge :: string where
  "jenkinsOnlyBadge = ''![Jenkins only](https://img.shields.io/badge/-Jenkins%20only-yellowgreen)''"

definition secretBadge :: string where
  "secretBadge = ''![Secret](https://img.shields.io/badge/-Secret-yellowgreen)''"

definition systemTrustBadge :: string where
  "systemTrustBadge = ''![System Trust](https://img.shields.io/badge/-System%20Trust-lightblue)''"

definition deprecatedBadge :: string where
  "deprecatedBadge = ''![deprecated](https://img.shields.io/badge/-deprecated-red)''"

definition jenkinsParams :: "string list" where
  "jenkinsParams =
     [''containerCommand'', ''containerName'', ''containerShell'', ''dockerVolumeBind'',
      ''dockerWorkspace'', ''sidecarReadyCommand'', ''sidecarWorkspace'', ''stashContent'']"

subsection \<open>The overview tables\<close>

text \<open>
  A Go function that returns a value and an \<^verbatim>\<open>error\<close> is modelled with a pair: the
  value and \<open>None\<close> for a nil error, \<open>Some msg\<close> for the error \<^verbatim>\<open>fmt.Errorf(msg)\<close>.
\<close>

definition checkParameterInfo :: "string \<Rightarrow> bool \<Rightarrow> bool \<Rightarrow> string \<times> string option" where
  "checkParameterInfo furtherInfo stepParam executionEnvironment =
     (if stepParam \<and> \<not> executionEnvironment \<or> \<not> stepParam \<and> executionEnvironment
      then (furtherInfo, None)
      else if executionEnvironment
      then ([], Some ''step parameter not relevant as execution environment parameter'')
      else ([], Some ''execution environment parameter not relevant as step parameter''))"

text \<open>
  \<^verbatim>\<open>parameterMandatoryInformation\<close> returns \<^verbatim>\<open>mandatory\<close>, \<^verbatim>\<open>mandatoryString\<close>
  and \<^verbatim>\<open>mandatoryInfo\<close>.  \<open>mandatoryCondition\<close> is the text of one condition.
\<close>

definition mandatoryCondition :: "genv \<Rightarrow> ParameterDependence \<Rightarrow> string" where
  "mandatoryCondition env c =
     ''- [`'' @ pd_Name c @ ''`](#'' @ strings_ToLower env (pd_Name c) @ '')=`'' @ pd_Value c @ ''`''"

definition parameterMandatoryInformation ::
  "genv \<Rightarrow> StepParameters \<Rightarrow> string \<Rightarrow> bool \<times> string \<times> string" where
  "parameterMandatoryInformation env param furtherInfo =
     (let mandatoryIf = MandatoryIf param;
          mandatory = (if length mandatoryIf > 0 then True else Mandatory param);
          mandatoryInfo =
            (if length mandatoryIf > 0
             then (if length furtherInfo > 0 then furtherInfo @ ''<br />'' else furtherInfo)
                  @ strings_Join
                      (foldl (\<lambda>furtherInfoConditions c. furtherInfoConditions @ [mandatoryCondition env c])
                         [''mandatory in case of:''] mandatoryIf)
                      ''<br />''
             else furtherInfo);
          mandatoryString = (if length mandatoryInfo > 0 then ''**(yes)**'' else ''**yes**'')
      in (mandatory, mandatoryString, mandatoryInfo))"

text \<open>The loop over the secrets of \<^verbatim>\<open>parameterFurtherInfo\<close>: does it return?\<close>

fun jenkinsSecretNamed :: "string \<Rightarrow> StepSecrets list \<Rightarrow> bool" where
  "jenkinsSecretNamed paramName [] = False"
| "jenkinsSecretNamed paramName (secret # secrets) =
     (if paramName = sec_Name secret \<and> sec_Type secret = ''jenkins'' then True
      else jenkinsSecretNamed paramName secrets)"

text \<open>The text for a parameter that is a secret.\<close>

definition secretInfoOf :: "genv \<Rightarrow> StepParameters \<Rightarrow> string" where
  "secretInfoOf env param =
     (let isVaultSecret = (GetReference param ''vaultSecret'' \<noteq> None
                           \<or> GetReference param ''vaultSecretFile'' \<noteq> None);
          isSystemTrustSecret = (GetReference param (RefTypeSystemTrustSecret env) \<noteq> None);
          secretInfo =
            (if isVaultSecret \<and> isSystemTrustSecret
             then '' '' @ vaultBadge @ '' '' @ systemTrustBadge @ '' '' @ secretBadge
                  @ '' pass via ENV, Vault, System Trust or Jenkins credentials''
             else if isVaultSecret
             then '' '' @ vaultBadge @ '' '' @ secretBadge @ '' pass via ENV, Vault or Jenkins credentials''
             else secretBadge @ '' pass via ENV or Jenkins credentials'')
      in foldl (\<lambda>secretInfo res.
                  if rr_Type res = ''secret''
                  then secretInfo @ '' ([`'' @ rr_Name res @ ''`](#'' @ strings_ToLower env (rr_Name res) @ ''))''
                  else secretInfo)
           secretInfo (ResourceRef param))"

text \<open>The loop over the step parameters of \<^verbatim>\<open>parameterFurtherInfo\<close>.\<close>

fun stepParameterInfo ::
  "genv \<Rightarrow> string \<Rightarrow> bool \<Rightarrow> StepParameters list \<Rightarrow> string \<times> string option" where
  "stepParameterInfo env paramName executionEnvironment [] =
     checkParameterInfo [] True executionEnvironment"
| "stepParameterInfo env paramName executionEnvironment (param # params) =
     (if paramName = Name param then
        (let furtherInfo = (if DeprecationMessage param \<noteq> [] then deprecatedBadge else [])
         in if Secret param
            then checkParameterInfo (furtherInfo @ secretInfoOf env param) True executionEnvironment
            else checkParameterInfo furtherInfo True executionEnvironment)
      else stepParameterInfo env paramName executionEnvironment params)"

definition parameterFurtherInfo ::
  "genv \<Rightarrow> string \<Rightarrow> StepData \<Rightarrow> bool \<Rightarrow> string \<times> string option" where
  "parameterFurtherInfo env paramName stepData executionEnvironment =
     (if paramName = ''verbose''
      then checkParameterInfo ''activates debug output'' True executionEnvironment
      else if paramName = ''script''
      then checkParameterInfo (jenkinsOnlyBadge @ '' reference to Jenkins main pipeline script'')
             True executionEnvironment
      else if \<not> contains (stepParameterNames env) paramName
      then (if jenkinsSecretNamed paramName (Secrets (Inputs (Spec stepData)))
            then checkParameterInfo
                   (jenkinsOnlyBadge
                    @ '' id of credentials ([using credentials](https://www.jenkins.io/doc/book/using/using-credentials/))'')
                   True executionEnvironment
            else if contains jenkinsParams paramName
            then checkParameterInfo jenkinsOnlyBadge False executionEnvironment
            else checkParameterInfo [] False executionEnvironment)
      else stepParameterInfo env paramName executionEnvironment (rangeParameters stepData))"

text \<open>The row that \<^verbatim>\<open>createParameterOverview\<close> writes for a parameter.\<close>

definition overviewRow :: "genv \<Rightarrow> StepParameters \<Rightarrow> string \<Rightarrow> string" where
  "overviewRow env param furtherInfo0 =
     (case parameterMandatoryInformation env param furtherInfo0 of
        (mandatory, mandatoryString, furtherInfo) \<Rightarrow>
          ''| ['' @ Name param @ ''](#'' @ strings_ToLower env (Name param) @ '') | ''
          @ ifThenElse mandatory mandatoryString ''no'' @ '' | '' @ furtherInfo @ '' |\<newline>'')"

fun overviewLoop :: "genv \<Rightarrow> StepData \<Rightarrow> bool \<Rightarrow> string \<Rightarrow> StepParameters list \<Rightarrow> string" where
  "overviewLoop env stepData executionEnvironment table [] = table"
| "overviewLoop env stepData executionEnvironment table (param # params) =
     (case parameterFurtherInfo env (Name param) stepData executionEnvironment of
        (furtherInfo, None) \<Rightarrow>
          overviewLoop env stepData executionEnvironment
            (table @ overviewRow env param furtherInfo) params
      | (furtherInfo, Some err) \<Rightarrow>
          overviewLoop env stepData executionEnvironment table params)"

definition createParameterOverview :: "genv \<Rightarrow> StepData \<Rightarrow> bool \<Rightarrow> string" where
  "createParameterOverview env stepData executionEnvironment =
     overviewLoop env stepData executionEnvironment
       (''| Name | Mandatory | Additional information |\<newline>''
        @ ''| ---- | --------- | ---------------------- |\<newline>'')
       (rangeParameters stepData)
     @ ''\<newline>''"

subsection \<open>The details section\<close>

definition formatDefault :: "StepParameters \<Rightarrow> string list \<Rightarrow> string" where
  "formatDefault param stepParameterNames' =
     (case Default param of
        VNil \<Rightarrow>
          (if contains stepParameterNames' (Name param)
           then ''`$PIPER_'' @ Name param @ ''` (if set)''
           else [])
      | VCondSlice v \<Rightarrow>
          strings_Join
            (foldl (\<lambda>defaults condDef.
                      case condDef of (key, val, def) \<Rightarrow>
                        if length key > 0 \<and> length val > 0
                        then defaults @ [key @ ''=`'' @ val @ ''`: `'' @ fmt_v def @ ''`'']
                        else defaults @ [''`'' @ fmt_v def @ ''`''])
               [] v)
            ''<br />''
      | VIfaceSlice v \<Rightarrow>
          strings_Join
            (foldl (\<lambda>defaults def.
                      case def of
                        VCond key val d \<Rightarrow> defaults @ [key @ ''=`'' @ val @ ''`: `'' @ fmt_v d @ ''`'']
                      | _ \<Rightarrow> defaults @ [''- `'' @ fmt_v def @ ''`''])
               [] v)
            ''<br />''
      | VStringMap v \<Rightarrow>
          strings_Join
            (foldl (\<lambda>defaults kd. defaults @ [''`'' @ fst kd @ ''`: `'' @ snd kd @ ''`'']) [] v)
            ''<br />''
      | VString v \<Rightarrow>
          (if length v = 0 then [CHR ''`'', CHR 0x27, CHR 0x27, CHR ''`'']
           else ''`'' @ v @ ''`'')
      | _ \<Rightarrow> ''`'' @ fmt_v (Default param) @ ''`'')"

definition aliasEntry :: "Alias \<Rightarrow> string" where
  "aliasEntry alias =
     (if al_Deprecated alias then ''- `'' @ al_Name alias @ ''`'' @ '' (**deprecated**)''
      else ''- `'' @ al_Name alias @ ''`'')"

fun aliasList :: "Alias list \<Rightarrow> string" where
  "aliasList [] = ''-''"
| "aliasList [a] =
     (if al_Deprecated a then ''`'' @ al_Name a @ ''`'' @ '' (**deprecated**)''
      else ''`'' @ al_Name a @ ''`'')"
| "aliasList aliases = strings_Join (map aliasEntry aliases) ''<br />''"

definition possibleValueList :: "gvalue list \<Rightarrow> string" where
  "possibleValueList possibleValues =
     (if length possibleValues = 0 then []
      else strings_Join (map (\<lambda>possibleValue. ''- `'' @ fmt_v possibleValue @ ''`'') possibleValues)
             ''<br />'')"

definition scopeDetails :: "string list \<Rightarrow> string" where
  "scopeDetails scope =
     ''<ul>''
     @ ''<li>'' @ ifThenElse (contains scope ''PARAMETERS'') ''&#9746;'' ''&#9744;'' @ '' parameter</li>''
     @ ''<li>'' @ ifThenElse (contains scope ''GENERAL'') ''&#9746;'' ''&#9744;'' @ '' general</li>''
     @ ''<li>'' @ ifThenElse (contains scope ''STEPS'') ''&#9746;'' ''&#9744;'' @ '' steps</li>''
     @ ''<li>'' @ ifThenElse (contains scope ''STAGES'') ''&#9746;'' ''&#9744;'' @ '' stages</li>''
     @ ''</ul>''"

definition addVaultResourceDetails :: "genv \<Rightarrow> ResourceReference \<Rightarrow> string \<Rightarrow> string" where
  "addVaultResourceDetails env resource resourceDetails =
     foldl (\<lambda>resourceDetails rootPath.
              resourceDetails @ ''<li>`'' @ path_Join [rootPath, rr_Default resource] @ ''`</li>'')
       (resourceDetails
        @ ''<br/>Vault resource:<br />''
        @ ''&nbsp;&nbsp;name: `'' @ rr_Name resource @ ''`<br />''
        @ ''&nbsp;&nbsp;default value: `'' @ rr_Default resource @ ''`<br />''
        @ ''<br/>Vault paths: <br />''
        @ ''<ul>'')
       (VaultRootPaths env)
     @ ''</ul>''"

definition addSystemTrustResourceDetails :: "ResourceReference \<Rightarrow> string \<Rightarrow> string" where
  "addSystemTrustResourceDetails resource resourceDetails =
     resourceDetails
     @ ''<br/>System Trust resource:<br />''
     @ ''&nbsp;&nbsp;name: `'' @ rr_Name resource @ ''`<br />''
     @ ''&nbsp;&nbsp;value: `'' @ rr_Default resource @ ''`<br />''"

text \<open>The loop over the aliases of a secret reference; \<open>i\<close> is the index.\<close>

fun secretAliasLoop :: "nat \<Rightarrow> string \<Rightarrow> Alias list \<Rightarrow> string" where
  "secretAliasLoop i resourceDetails [] = resourceDetails"
| "secretAliasLoop i resourceDetails (alias # aliases) =
     secretAliasLoop (Suc i)
       ((if i = 0 then resourceDetails @ ''&nbsp;&nbsp;aliases:<br />'' else resourceDetails)
        @ ''&nbsp;&nbsp;- `'' @ al_Name alias @ ''`''
        @ ifThenElse (al_Deprecated alias) '' (**Deprecated**)'' [] @ ''<br />'')
       aliases"

text \<open>One round of the loop of \<^verbatim>\<open>resourceReferenceDetails\<close>.\<close>

definition resourceReferenceStep :: "genv \<Rightarrow> string \<Rightarrow> ResourceReference \<Rightarrow> string" where
  "resourceReferenceStep env resourceDetails resource =
     (if rr_Name resource = ''commonPipelineEnvironment''
      then resourceDetails @ ''_commonPipelineEnvironment_:<br />''
           @ ''&nbsp;&nbsp;reference to: `'' @ rr_Param resource @ ''`<br />''
      else if rr_Type resource = ''secret''
      then (let d1 = secretAliasLoop 0 (resourceDetails @ ''Jenkins credential id:<br />'')
                       (rr_Aliases resource);
                d2 = d1 @ ''&nbsp;&nbsp;id: [`'' @ rr_Name resource @ ''`](#''
                     @ strings_ToLower env (rr_Name resource) @ '')<br />''
            in if rr_Param resource \<noteq> []
               then d2 @ ''&nbsp;&nbsp;reference to: `'' @ rr_Param resource @ ''`<br />''
               else d2)
      else if rr_Type resource = ''vaultSecret'' \<or> rr_Type resource = ''vaultSecretFile''
      then addVaultResourceDetails env resource resourceDetails
      else if rr_Type resource = RefTypeSystemTrustSecret env
      then addSystemTrustResourceDetails resource resourceDetails
      else resourceDetails)"

definition resourceReferenceDetails :: "genv \<Rightarrow> ResourceReference list \<Rightarrow> string" where
  "resourceReferenceDetails env resourceRef =
     (if length resourceRef = 0 then ''none''
      else foldl (resourceReferenceStep env) [] resourceRef)"

text \<open>What one round of the first loop of \<^verbatim>\<open>createParameterDetails\<close> appends.\<close>

definition parameterDetails :: "genv \<Rightarrow> StepParameters \<Rightarrow> string" where
  "parameterDetails env param =
     ''#### '' @ Name param @ ''\<newline>\<newline>''
     @ (if \<not> contains (stepParameterNames env) (Name param) \<and> contains jenkinsParams (Name param)
        then ''**Jenkins-specific:** Used for proper environment setup.\<newline>\<newline>''
        else [])
     @ (if length (LongDescription param) > 0 then LongDescription param @ ''\<newline>\<newline>''
        else Description param @ ''\<newline>\<newline>'')
     @ ''[back to overview](#parameters)\<newline>\<newline>''
     @ ''| Scope | Details |\<newline>''
     @ ''| ---- | --------- |\<newline>''
     @ (if DeprecationMessage param \<noteq> []
        then ''| Deprecated | '' @ DeprecationMessage param @ '' |\<newline>''
        else [])
     @ ''| Aliases | '' @ aliasList (Aliases param) @ '' |\<newline>''
     @ ''| Type | `'' @ Type param @ ''` |\<newline>''
     @ (case parameterMandatoryInformation env param [] of
          (mandatory, mandatoryString, furtherInfo) \<Rightarrow>
            ''| Mandatory | ''
            @ ifThenElse mandatory
                (if mandatory \<and> length furtherInfo > 0 then furtherInfo else mandatoryString)
                ''no''
            @ '' |\<newline>'')
     @ ''| Default | '' @ formatDefault param (stepParameterNames env) @ '' |\<newline>''
     @ (case PossibleValues param of
          None \<Rightarrow> []
        | Some possibleValues \<Rightarrow>
            ''| Possible values | '' @ possibleValueList possibleValues @ '' |\<newline>'')
     @ ''| Secret | '' @ ifThenElse (Secret param) ''**yes**'' ''no'' @ '' |\<newline>''
     @ ''| Configuration scope | '' @ scopeDetails (Scope param) @ '' |\<newline>''
     @ ''| Resource references | '' @ resourceReferenceDetails env (ResourceRef param) @ '' |\<newline>''
     @ ''\<newline>\<newline>''"

text \<open>What one round of the second loop appends.\<close>

definition secretDetails :: "genv \<Rightarrow> StepSecrets \<Rightarrow> string" where
  "secretDetails env secret =
     ''#### '' @ sec_Name secret @ ''\<newline>\<newline>''
     @ (if \<not> contains (stepParameterNames env) (sec_Name secret) \<and> contains jenkinsParams (sec_Name secret)
        then ''**Jenkins-specific:** Used for proper environment setup. See *[using credentials](https://www.jenkins.io/doc/book/using/using-credentials/)* for details.\<newline>\<newline>''
        else [])
     @ sec_Description secret @ ''\<newline>\<newline>''
     @ ''[back to overview](#parameters)\<newline>\<newline>''
     @ ''| Scope | Details |\<newline>''
     @ ''| ---- | --------- |\<newline>''
     @ ''| Aliases | '' @ aliasList (sec_Aliases secret) @ '' |\<newline>''
     @ ''| Type | `'' @ ''string'' @ ''` |\<newline>''
     @ ''| Configuration scope | ''
     @ scopeDetails [''PARAMETERS'', ''GENERAL'', ''STEPS'', ''STAGES''] @ '' |\<newline>''
     @ ''\<newline>\<newline>''"

definition createParameterDetails :: "genv \<Rightarrow> StepData \<Rightarrow> string" where
  "createParameterDetails env stepData =
     foldl (\<lambda>details secret. details @ secretDetails env secret)
       (foldl (\<lambda>details param. details @ parameterDetails env param) [] (rangeParameters stepData))
       (Secrets (Inputs (Spec stepData)))"

subsection \<open>The parameters section\<close>

text \<open>
  \<^verbatim>\<open>createParametersSection\<close> sorts the metadata it is given in place: the model
  returns the text and the metadata after the call.
\<close>

definition createParametersSection :: "genv \<Rightarrow> StepData \<Rightarrow> string \<times> StepData" where
  "createParametersSection env stepData =
     (let parameters = ''## Parameters\<newline>\<newline>'';
          stepData1 = sortStepParameters stepData True;
          parameters = parameters @ ''### Overview - Step\<newline>\<newline>'';
          parameters = parameters @ createParameterOverview env stepData1 False;
          parameters = parameters @ ''### Overview - Execution Environment\<newline>\<newline>'';
          parameters = parameters
            @ ''!!! note '' @ [CHR 0x22] @ ''Orchestrator-specific only'' @ [CHR 0x22]
            @ ''\<newline>\<newline>    These parameters are relevant for orchestrator usage and not considered when using the command line option.\<newline>\<newline>'';
          parameters = parameters @ createParameterOverview env stepData1 True;
          stepData2 = sortStepParameters stepData1 False;
          parameters = parameters @ ''### Details\<newline>\<newline>'';
          parameters = parameters @ createParameterDetails env stepData2
      in (parameters, stepData2))"

section \<open>The command \<^verbatim>\<open>pythonBuild\<close> (package \<^verbatim>\<open>cmd\<close>)\<close>

subsection \<open>Data\<close>

record pythonBuildOptions =
  BuildFlags :: "string list"
  SetupFlags :: "string list"
  CreateBOM :: bool
  Publish :: bool
  TargetRepositoryPassword :: string
  TargetRepositoryUser :: string
  TargetRepositoryURL :: string
  BuildSettingsInfo :: string
  VirutalEnvironmentName :: string
  RequirementsFilePath :: string

record pythonBuildCustom =
  buildSettingsInfo :: string

record pythonBuildCommonPipelineEnvironment =
  custom :: pythonBuildCustom

text \<open>\<^verbatim>\<open>telemetry.CustomData\<close>, with the fields this code writes.\<close>

record CustomData =
  ErrorCode :: string
  Duration :: string
  ErrorCategory :: string
  PiperCommitHash :: string

text \<open>The fields of the package variable \<^verbatim>\<open>GeneralConfig\<close> this code reads or writes.\<close>

record SentryConfig =
  sentry_Dsn :: string

record SplunkConfig =
  splunk_Dsn :: string
  splunk_Token :: string
  splunk_Index :: string
  splunk_SendLogs :: bool
  splunk_ProdCriblEndpoint :: string
  splunk_ProdCriblToken :: string
  splunk_ProdCriblIndex :: string

record GCPPubSubConfig =
  gcp_Enabled :: bool
  gcp_ProjectNumber :: string
  gcp_IdentityPool :: string
  gcp_IdentityProvider :: string
  gcp_Topic :: string

record OIDCConfig =
  oidc_RoleID :: string

record HookConfiguration =
  SentryConfig :: SentryConfig
  SplunkConfig :: SplunkConfig
  GCPPubSubConfig :: GCPPubSubConfig
  OIDCConfig :: OIDCConfig

record GeneralConfigOptions =
  Verbose :: bool
  GitHubTokens :: "string list"
  GitHubAccessTokens :: "(string \<times> string) list"
  CorrelationID :: string
  EnvRootPath :: string
  HookConfig :: HookConfiguration

text \<open>The log hooks this code creates.\<close>

datatype hook =
    FatalHook string string
  | SentryHook string string
  | CollectorHook string

text \<open>
  The code of these files calls its collaborators (the packages \<^verbatim>\<open>log\<close>,
  \<^verbatim>\<open>config\<close>, \<^verbatim>\<open>telemetry\<close>, \<^verbatim>\<open>splunk\<close>, \<^verbatim>\<open>gcp\<close>, \<^verbatim>\<open>piperenv\<close>,
  \<^verbatim>\<open>validation\<close>, the step function \<^verbatim>\<open>pythonBuild\<close>) for their effects.  The model
  records every such call, with its arguments, in the order the code makes them, and the
  two assignments to \<^verbatim>\<open>stepTelemetryData.ErrorCode\<close>; what a collaborator returns is
  a parameter of the model.
\<close>

datatype event =
    Time_Now
  | Log_SetStepName string
  | Log_SetVerbose bool
  | ResolveAccessTokens_call "string list"
  | Os_Getwd
  | Log_RegisterHook hook
  | PrepareConfig_call string pythonBuildOptions
  | Log_SetErrorCategory string
  | Log_RegisterSecret string
  | Log_NewSentryHook string string
  | Log_RegisterANSHookIfConfigured string
  | Log_Warn string
  | Log_Error string
  | Log_Info string
  | Validation_New
  | Validation_ValidateStruct pythonBuildOptions
  | Config_GlobalVaultClient
  | VaultClient_MustRevokeToken
  | Assign_ErrorCode string
  | Log_DeferExitHandler
  | Telemetry_Initialize string
  | PythonBuild_call pythonBuildOptions CustomData pythonBuildCommonPipelineEnvironment
  | Piperenv_SetResourceParameter string string string gvalue
  | Config_RemoveVaultSecretFiles
  | Telemetry_SetData CustomData
  | Telemetry_LogStepTelemetryData
  | Splunk_Initialize string string string string bool
  | Splunk_Send "hook option"
  | Gcp_Publish bool string string string string string string
  | Os_Exit
  | Panic_propagates

subsection \<open>\<^verbatim>\<open>persist\<close>\<close>

text \<open>The slice \<^verbatim>\<open>content\<close>: category, name and value of each entry.\<close>

definition persist_content ::
  "pythonBuildCommonPipelineEnvironment \<Rightarrow> (string \<times> string \<times> gvalue) list" where
  "persist_content p = [(''custom'', ''buildSettingsInfo'', VString (buildSettingsInfo (custom p)))]"

text \<open>
  The loop of \<^verbatim>\<open>persist\<close>.  \<open>setResourceParameter\<close> is what
  \<^verbatim>\<open>piperenv.SetResourceParameter\<close> returns for its four arguments: \<open>None\<close> for nil,
  \<open>Some msg\<close> for an error.
\<close>

fun persistLoop ::
  "(string \<Rightarrow> string \<Rightarrow> string \<Rightarrow> gvalue \<Rightarrow> string option) \<Rightarrow> string \<Rightarrow> string \<Rightarrow>
   nat \<Rightarrow> event list \<Rightarrow> (string \<times> string \<times> gvalue) list \<Rightarrow> nat \<times> event list" where
  "persistLoop setResourceParameter path resourceName errCount tr [] = (errCount, tr)"
| "persistLoop setResourceParameter path resourceName errCount tr (param # content) =
     (case param of (category, name, val) \<Rightarrow>
        (let key = path_Join [category, name];
             tr1 = tr @ [Piperenv_SetResourceParameter path resourceName key val]
         in case setResourceParameter path resourceName key val of
              Some err \<Rightarrow>
                persistLoop setResourceParameter path resourceName (errCount + 1)
                  (tr1 @ [Log_Error ''Error persisting piper environment.'']) content
            | None \<Rightarrow>
                persistLoop setResourceParameter path resourceName errCount tr1 content))"

definition persist ::
  "(string \<Rightarrow> string \<Rightarrow> string \<Rightarrow> gvalue \<Rightarrow> string option) \<Rightarrow>
   pythonBuildCommonPipelineEnvironment \<Rightarrow> string \<Rightarrow> string \<Rightarrow> event list" where
  "persist setResourceParameter p path resourceName =
     (case persistLoop setResourceParameter path resourceName 0 [] (persist_content p) of
        (errCount, tr) \<Rightarrow>
          if errCount > 0 then tr @ [Log_Error ''failed to persist Piper environment''] else tr)"

subsection \<open>The flags\<close>

text \<open>
  The fields of \<^verbatim>\<open>pythonBuildOptions\<close> a flag is bound to, and the three kinds of
  flags the code registers, each with the field, the name, the default value and the
  usage text.
\<close>

datatype optionField =
    F_BuildFlags | F_SetupFlags | F_CreateBOM | F_Publish | F_TargetRepositoryPassword
  | F_TargetRepositoryUser | F_TargetRepositoryURL | F_BuildSettingsInfo
  | F_VirutalEnvironmentName | F_RequirementsFilePath

datatype flag =
    StringSliceVar optionField string "string list" string
  | BoolVar optionField string bool string
  | StringVar optionField string string string

fun flagName :: "flag \<Rightarrow> string" where
  "flagName (StringSliceVar f n d u) = n"
| "flagName (BoolVar f n d u) = n"
| "flagName (StringVar f n d u) = n"

text \<open>The default value of a flag, as a dynamic value.\<close>

fun flagDefault :: "flag \<Rightarrow> gvalue" where
  "flagDefault (StringSliceVar f n d u) = VStringSlice d"
| "flagDefault (BoolVar f n d u) = VBool d"
| "flagDefault (StringVar f n d u) = VString d"

text \<open>\<open>getenv\<close> is \<^verbatim>\<open>os.Getenv\<close>: the environment of the process.\<close>

definition addPythonBuildFlags :: "(string \<Rightarrow> string) \<Rightarrow> flag list" where
  "addPythonBuildFlags getenv =
     [StringSliceVar F_BuildFlags ''buildFlags'' []
        ''Defines list of build flags passed to python binary.'',
      StringSliceVar F_SetupFlags ''setupFlags'' []
        ''Defines list of flags passed to setup.py.'',
      BoolVar F_CreateBOM ''createBOM'' False
        ''Creates the bill of materials (BOM) using CycloneDX plugin.'',
      BoolVar F_Publish ''publish'' False
        ''Configures the build to publish artifacts to a repository.'',
      StringVar F_TargetRepositoryPassword ''targetRepositoryPassword''
        (getenv ''PIPER_targetRepositoryPassword'')
        ''Password for the target repository where the compiled binaries shall be uploaded - typically provided by the CI/CD environment.'',
      StringVar F_TargetRepositoryUser ''targetRepositoryUser''
        (getenv ''PIPER_targetRepositoryUser'')
        ''Username for the target repository where the compiled binaries shall be uploaded - typically provided by the CI/CD environment.'',
      StringVar F_TargetRepositoryURL ''targetRepositoryURL''
        (getenv ''PIPER_targetRepositoryURL'')
        ''URL of the target repository where the compiled binaries shall be uploaded - typically provided by the CI/CD environment.'',
      StringVar F_BuildSettingsInfo ''buildSettingsInfo''
        (getenv ''PIPER_buildSettingsInfo'')
        ''build settings info is typically filled by the step automatically to create information about the build settings that were used during the maven build . This information is typically used for compliance related processes.'',
      StringVar F_VirutalEnvironmentName ''virutalEnvironmentName'' ''piperBuild-env''
        ''name of the virtual environment that will be used for the build'',
      StringVar F_RequirementsFilePath ''requirementsFilePath'' ''requirements.txt''
        ''file path to the requirements.txt file needed for the sbom cycloneDx file creation.'']"

subsection \<open>The step metadata\<close>

text \<open>
  A parameter of the metadata with the fields the literal gives; the fields it leaves
  out have the zero value of their type.
\<close>

definition stepParameter ::
  "string \<Rightarrow> ResourceReference list \<Rightarrow> string list \<Rightarrow> string \<Rightarrow> bool \<Rightarrow> Alias list \<Rightarrow> gvalue
   \<Rightarrow> StepParameters" where
  "stepParameter name resourceRef scope type mandatory aliases dflt =
     \<lparr>Name = name, Description = [], LongDescription = [], ResourceRef = resourceRef,
      Scope = scope, Type = type, Mandatory = mandatory, Default = dflt,
      PossibleValues = None, Aliases = aliases, Secret = False, MandatoryIf = [],
      DeprecationMessage = []\<rparr>"

text \<open>A resource reference with a name and a parameter, as the literals give them.\<close>

definition resourceReference :: "string \<Rightarrow> string \<Rightarrow> ResourceReference" where
  "resourceReference name param =
     \<lparr>rr_Name = name, rr_Type = [], rr_Param = param, rr_Default = [], rr_Aliases = []\<rparr>"

definition pythonBuildMetadata :: "(string \<Rightarrow> string) \<Rightarrow> StepData" where
  "pythonBuildMetadata getenv =
     \<lparr>Metadata = \<lparr>md_Name = ''pythonBuild'', md_Aliases = [],
                  md_Description = ''Step builds a python project''\<rparr>,
      Spec = \<lparr>
        Inputs = \<lparr>
          Parameters = Some [
            stepParameter ''buildFlags'' [] [''PARAMETERS'', ''STAGES'', ''STEPS'']
              ''[]string'' False [] (VStringSlice []),
            stepParameter ''setupFlags'' [] [''PARAMETERS'', ''STAGES'', ''STEPS'']
              ''[]string'' False [] (VStringSlice []),
            stepParameter ''createBOM'' [] [''GENERAL'', ''STEPS'', ''STAGES'', ''PARAMETERS'']
              ''bool'' False [] (VBool False),
            stepParameter ''publish'' [] [''STEPS'', ''STAGES'', ''PARAMETERS'']
              ''bool'' False [] (VBool False),
            stepParameter ''targetRepositoryPassword''
              [resourceReference ''commonPipelineEnvironment'' ''custom/repositoryPassword'']
              [''PARAMETERS'', ''STAGES'', ''STEPS'']
              ''string'' False [] (VString (getenv ''PIPER_targetRepositoryPassword'')),
            stepParameter ''targetRepositoryUser''
              [resourceReference ''commonPipelineEnvironment'' ''custom/repositoryUsername'']
              [''PARAMETERS'', ''STAGES'', ''STEPS'']
              ''string'' False [] (VString (getenv ''PIPER_targetRepositoryUser'')),
            stepParameter ''targetRepositoryURL''
              [resourceReference ''commonPipelineEnvironment'' ''custom/repositoryUrl'']
              [''PARAMETERS'', ''STAGES'', ''STEPS'']
              ''string'' False [] (VString (getenv ''PIPER_targetRepositoryURL'')),
            stepParameter ''buildSettingsInfo''
              [resourceReference ''commonPipelineEnvironment'' ''custom/buildSettingsInfo'']
              [''STEPS'', ''STAGES'', ''PARAMETERS'']
              ''string'' False [] (VString (getenv ''PIPER_buildSettingsInfo'')),
            stepParameter ''virutalEnvironmentName'' [] [''STEPS'', ''STAGES'', ''PARAMETERS'']
              ''string'' False [] (VString ''piperBuild-env''),
            stepParameter ''requirementsFilePath'' [] [''STEPS'', ''STAGES'', ''PARAMETERS'']
              ''string'' False [] (VString ''requirements.txt'')],
          Secrets = []\<rparr>,
        Containers = [\<lparr>c_Name = ''python'', c_Image = ''python:3.9''\<rparr>],
        Outputs = \<lparr>
          Resources = [
            \<lparr>res_Name = ''commonPipelineEnvironment'', res_Type = ''piperEnvironment'',
             res_Parameters = [[(''name'', VString ''custom/buildSettingsInfo'')]]\<rparr>]\<rparr>\<rparr>\<rparr>"

text \<open>
  The names of the output parameters the metadata declares for a resource: the entry
  \<^verbatim>\<open>name\<close> of each map of each resource of that name.
\<close>

fun lookupName :: "(string \<times> gvalue) list \<Rightarrow> gvalue list" where
  "lookupName [] = []"
| "lookupName ((k, v) # kvs) = (if k = ''name'' then [v] else lookupName kvs)"

definition declaredOutputParameters :: "StepData \<Rightarrow> string \<Rightarrow> gvalue list" where
  "declaredOutputParameters stepData resourceName =
     concat (map (\<lambda>r. concat (map lookupName (res_Parameters r)))
               (filter (\<lambda>r. res_Name r = resourceName) (Resources (Outputs (Spec stepData)))))"

subsection \<open>The command and its state\<close>

text \<open>
  The variables the closures \<^verbatim>\<open>PreRunE\<close> and \<^verbatim>\<open>Run\<close> of one command share, and
  the package variable \<^verbatim>\<open>GeneralConfig\<close>.  \<open>splunkClient\<close> says whether the pointer
  is set; \<open>startTime\<close> is a point in time.
\<close>

record cmdState =
  metadata :: StepData
  stepConfig :: pythonBuildOptions
  startTime :: nat
  commonPipelineEnvironment :: pythonBuildCommonPipelineEnvironment
  logCollector :: "hook option"
  splunkClient :: bool
  GeneralConfig :: GeneralConfigOptions

record cobraCommand =
  Use :: string
  Short :: string
  Long :: string
  Flags :: "flag list"

definition STEP_NAME :: string where
  "STEP_NAME = ''pythonBuild''"

text \<open>
  Registering a flag stores its default value in the field it is bound to (the flag
  library writes the value through the pointer it is given).
\<close>

fun storeDefault :: "pythonBuildOptions \<Rightarrow> flag \<Rightarrow> pythonBuildOptions" where
  "storeDefault c (StringSliceVar F_BuildFlags n d u) = c\<lparr>BuildFlags := d\<rparr>"
| "storeDefault c (StringSliceVar F_SetupFlags n d u) = c\<lparr>SetupFlags := d\<rparr>"
| "storeDefault c (BoolVar F_CreateBOM n d u) = c\<lparr>CreateBOM := d\<rparr>"
| "storeDefault c (BoolVar F_Publish n d u) = c\<lparr>Publish := d\<rparr>"
| "storeDefault c (StringVar F_TargetRepositoryPassword n d u) = c\<lparr>TargetRepositoryPassword := d\<rparr>"
| "storeDefault c (StringVar F_TargetRepositoryUser n d u) = c\<lparr>TargetRepositoryUser := d\<rparr>"
| "storeDefault c (StringVar F_TargetRepositoryURL n d u) = c\<lparr>TargetRepositoryURL := d\<rparr>"
| "storeDefault c (StringVar F_BuildSettingsInfo n d u) = c\<lparr>BuildSettingsInfo := d\<rparr>"
| "storeDefault c (StringVar F_VirutalEnvironmentName n d u) = c\<lparr>VirutalEnvironmentName := d\<rparr>"
| "storeDefault c (StringVar F_RequirementsFilePath n d u) = c\<lparr>RequirementsFilePath := d\<rparr>"
| "storeDefault c _ = c"

definition PythonBuildCommand ::
  "(string \<Rightarrow> string) \<Rightarrow> GeneralConfigOptions \<Rightarrow> cobraCommand \<times> cmdState" where
  "PythonBuildCommand getenv generalConfig =
     (let flags = addPythonBuildFlags getenv;
          zeroConfig = \<lparr>BuildFlags = [], SetupFlags = [], CreateBOM = False, Publish = False,
                        TargetRepositoryPassword = [], TargetRepositoryUser = [],
                        TargetRepositoryURL = [], BuildSettingsInfo = [],
                        VirutalEnvironmentName = [], RequirementsFilePath = []\<rparr>
      in (\<lparr>Use = STEP_NAME,
           Short = ''Step builds a python project'',
           Long = ''Step build python project using the setup.py manifest and builds a wheel and tarball artifact . please note that currently python build only supports setup.py\<newline>\<newline>### build with depedencies from a private repository\<newline>if your build has dependencies from a private repository you can include the standard requirements.txt into the source code with `--extra-index-url` as the first line\<newline>\<newline>```\<newline>--extra-index-url https://${PIPER_VAULTCREDENTIAL_USERNAME}:${PIPER_VAULTCREDENTIAL_PASSWORD}@<privateRepoUrl>/simple\<newline>```\<newline>`PIPER_VAULTCREDENTIAL_USERNAME` and `PIPER_VAULTCREDENTIAL_PASSWORD` are the username and password for the private repository\<newline>and are exposed are environment variables that must be present in the environment where the Piper step runs or alternatively can be created using :\<newline>[vault general purpose credentials](../infrastructure/vault.md#using-vault-for-general-purpose-and-test-credentials)'',
           Flags = flags\<rparr>,
          \<lparr>metadata = pythonBuildMetadata getenv,
           stepConfig = foldl storeDefault zeroConfig flags,
           startTime = 0,
           commonPipelineEnvironment = \<lparr>custom = \<lparr>buildSettingsInfo = []\<rparr>\<rparr>,
           logCollector = None,
           splunkClient = False,
           GeneralConfig = generalConfig\<rparr>))"

subsection \<open>\<^verbatim>\<open>PreRunE\<close>\<close>

text \<open>
  What the collaborators of \<^verbatim>\<open>PreRunE\<close> return.  A call that returns a value and an
  error returns a pair; \<open>PrepareConfig\<close> gets the metadata and the configuration and
  returns the configuration it has filled in.
\<close>

record preRunWorld =
  time_Now :: nat
  ResolveAccessTokens :: "string list \<Rightarrow> (string \<times> string) list"
  os_Getwd :: "string \<times> string option"
  PrepareConfig :: "StepData \<Rightarrow> pythonBuildOptions \<Rightarrow> pythonBuildOptions \<times> string option"
  RegisterANSHookIfConfigured :: "string \<Rightarrow> string option"
  validation_New :: "string option"
  ValidateStruct :: "pythonBuildOptions \<Rightarrow> string option"

text \<open>
  \<^verbatim>\<open>PreRunE\<close> returns its error, the state of the command after it and the calls it
  made.
\<close>

definition PreRunE :: "preRunWorld \<Rightarrow> cmdState \<Rightarrow> string option \<times> cmdState \<times> event list" where
  "PreRunE w s =
     (let s1 = s\<lparr>startTime := time_Now w\<rparr>;
          gc = GeneralConfig s1;
          tr1 = [Time_Now, Log_SetStepName STEP_NAME, Log_SetVerbose (Verbose gc),
                 ResolveAccessTokens_call (GitHubTokens gc)];
          gc = gc\<lparr>GitHubAccessTokens := ResolveAccessTokens w (GitHubTokens gc)\<rparr>;
          s2 = s1\<lparr>GeneralConfig := gc\<rparr>;
          tr2 = tr1 @ [Os_Getwd]
      in case os_Getwd w of
           (path, Some err) \<Rightarrow> (Some err, s2, tr2)
         | (path, None) \<Rightarrow>
             (let tr3 = tr2 @ [Log_RegisterHook (FatalHook (CorrelationID gc) path),
                              PrepareConfig_call STEP_NAME (stepConfig s2)]
              in case PrepareConfig w (metadata s2) (stepConfig s2) of
                   (config, Some err) \<Rightarrow>
                     (Some err, s2\<lparr>stepConfig := config\<rparr>,
                      tr3 @ [Log_SetErrorCategory ''ErrorConfiguration''])
                 | (config, None) \<Rightarrow>
                     (let s3 = s2\<lparr>stepConfig := config\<rparr>;
                          tr4 = tr3 @ [Log_RegisterSecret (TargetRepositoryPassword (stepConfig s3)),
                                       Log_RegisterSecret (TargetRepositoryUser (stepConfig s3))];
                          tr5 = tr4 @ (if length (sentry_Dsn (SentryConfig (HookConfig gc))) > 0
                                       then [Log_NewSentryHook
                                               (sentry_Dsn (SentryConfig (HookConfig gc)))
                                               (CorrelationID gc),
                                             Log_RegisterHook
                                               (SentryHook (sentry_Dsn (SentryConfig (HookConfig gc)))
                                                  (CorrelationID gc))]
                                       else []);
                          splunk = (length (splunk_Dsn (SplunkConfig (HookConfig gc))) > 0
                                    \<or> length (splunk_ProdCriblEndpoint (SplunkConfig (HookConfig gc))) > 0);
                          s4 = (if splunk
                                then s3\<lparr>splunkClient := True,
                                        logCollector := Some (CollectorHook (CorrelationID gc))\<rparr>
                                else s3);
                          tr6 = tr5 @ (if splunk
                                       then [Log_RegisterHook (CollectorHook (CorrelationID gc))]
                                       else []);
                          tr7 = tr6 @ [Log_RegisterANSHookIfConfigured (CorrelationID gc)];
                          tr8 = tr7 @ (case RegisterANSHookIfConfigured w (CorrelationID gc) of
                                         Some err \<Rightarrow>
                                           [Log_Warn ''failed to set up SAP Alert Notification Service log hook'']
                                       | None \<Rightarrow> []);
                          tr9 = tr8 @ [Validation_New]
                      in case validation_New w of
                           Some err \<Rightarrow> (Some err, s4, tr9)
                         | None \<Rightarrow>
                             (let tr10 = tr9 @ [Validation_ValidateStruct (stepConfig s4)]
                              in case ValidateStruct w (stepConfig s4) of
                                   Some err \<Rightarrow>
                                     (Some err, s4,
                                      tr10 @ [Log_SetErrorCategory ''ErrorConfiguration''])
                                 | None \<Rightarrow> (None, s4, tr10)))))"

subsection \<open>\<^verbatim>\<open>Run\<close>\<close>

text \<open>
  How the step function ends: it returns, it ends the process through the fatal log
  call of the \<^verbatim>\<open>log\<close> package, or it panics.
\<close>

datatype outcome = Returned | Fatal | Panicked

text \<open>
  What the collaborators of \<^verbatim>\<open>Run\<close> return.  \<open>GlobalVaultClient\<close> says whether the
  client is set.  \<open>pythonBuild\<close> gets the configuration and, through the two pointers,
  the telemetry data and the pipeline environment, which it may change: it returns how it
  ends and the two as it leaves them.  \<open>DurationMs\<close> is the text of
  \<^verbatim>\<open>time.Since(startTime).Milliseconds()\<close>, \<open>GetErrorCategory\<close> the text of the error
  category, \<open>GcpPublish\<close> the error of \<^verbatim>\<open>Publish\<close>.
\<close>

record runWorld =
  GlobalVaultClient :: bool
  pythonBuild ::
    "pythonBuildOptions \<Rightarrow> CustomData \<Rightarrow> pythonBuildCommonPipelineEnvironment
     \<Rightarrow> outcome \<times> CustomData \<times> pythonBuildCommonPipelineEnvironment"
  SetResourceParameter :: "string \<Rightarrow> string \<Rightarrow> string \<Rightarrow> gvalue \<Rightarrow> string option"
  DurationMs :: "nat \<Rightarrow> string"
  GetErrorCategory :: string
  GitCommit :: string
  GcpPublish :: "string option"

text \<open>
  The closure \<^verbatim>\<open>handler\<close>, run with the telemetry data and the pipeline environment
  as they are when it is called.  It returns the telemetry data after it and its calls.
\<close>

definition handler ::
  "runWorld \<Rightarrow> cmdState \<Rightarrow> bool \<Rightarrow> CustomData \<Rightarrow> pythonBuildCommonPipelineEnvironment
   \<Rightarrow> CustomData \<times> event list" where
  "handler w s vaultClient stepTelemetryData cpe =
     (let gc = GeneralConfig s;
          sc = SplunkConfig (HookConfig gc);
          pc = GCPPubSubConfig (HookConfig gc);
          tr1 = persist (SetResourceParameter w) cpe (EnvRootPath gc) ''commonPipelineEnvironment''
                @ [Config_RemoveVaultSecretFiles];
          stepTelemetryData = stepTelemetryData\<lparr>Duration := DurationMs w (startTime s)\<rparr>;
          stepTelemetryData = stepTelemetryData\<lparr>ErrorCategory := GetErrorCategory w\<rparr>;
          stepTelemetryData = stepTelemetryData\<lparr>PiperCommitHash := GitCommit w\<rparr>;
          tr2 = tr1 @ [Telemetry_SetData stepTelemetryData, Telemetry_LogStepTelemetryData];
          tr3 = tr2 @ (if length (splunk_Dsn sc) > 0
                       then [Splunk_Initialize (CorrelationID gc) (splunk_Dsn sc) (splunk_Token sc)
                               (splunk_Index sc) (splunk_SendLogs sc),
                             Splunk_Send (logCollector s)]
                       else []);
          tr4 = tr3 @ (if length (splunk_ProdCriblEndpoint sc) > 0
                       then [Splunk_Initialize (CorrelationID gc) (splunk_ProdCriblEndpoint sc)
                               (splunk_ProdCriblToken sc) (splunk_ProdCriblIndex sc)
                               (splunk_SendLogs sc),
                             Splunk_Send (logCollector s)]
                       else []);
          tr5 = tr4 @ (if gcp_Enabled pc
                       then [Gcp_Publish vaultClient (gcp_ProjectNumber pc)
                               (gcp_IdentityPool pc) (gcp_IdentityProvider pc)
                               (CorrelationID gc) (oidc_RoleID (OIDCConfig (HookConfig gc)))
                               (gcp_Topic pc)]
                            @ (case GcpPublish w of
                                 Some err \<Rightarrow> [Log_Warn ''event publish failed'']
                               | None \<Rightarrow> [])
                       else [])
      in (stepTelemetryData, tr5))"

text \<open>
  \<^verbatim>\<open>Run\<close>.  The handler is registered twice: as an exit handler of the \<^verbatim>\<open>log\<close>
  package, which runs it when the process is ended by a fatal log call, and with
  \<^verbatim>\<open>defer\<close>, which runs it when \<^verbatim>\<open>Run\<close> returns or panics.  The deferred calls run
  last-in first-out, so the handler runs before the token of the vault client is
  revoked; when the process is ended, the deferred calls do not run.  \<^verbatim>\<open>Run\<close>
  returns the state of the command, the telemetry data at its end and its calls.
\<close>

definition Run :: "runWorld \<Rightarrow> cmdState \<Rightarrow> cmdState \<times> CustomData \<times> event list" where
  "Run w s =
     (let vaultClient = GlobalVaultClient w;
          tr0 = [Config_GlobalVaultClient];
          deferred = (if vaultClient then [VaultClient_MustRevokeToken] else []);
          stepTelemetryData = \<lparr>ErrorCode = [], Duration = [], ErrorCategory = [],
                               PiperCommitHash = []\<rparr>;
          stepTelemetryData = stepTelemetryData\<lparr>ErrorCode := ''1''\<rparr>;
          tr1 = tr0 @ [Assign_ErrorCode ''1'', Log_DeferExitHandler, Telemetry_Initialize STEP_NAME,
                       PythonBuild_call (stepConfig s) stepTelemetryData
                         (commonPipelineEnvironment s)]
      in case pythonBuild w (stepConfig s) stepTelemetryData (commonPipelineEnvironment s) of
           (Returned, tel, cpe) \<Rightarrow>
             (let tel = tel\<lparr>ErrorCode := ''0''\<rparr>;
                  tr2 = tr1 @ [Assign_ErrorCode ''0'', Log_Info ''SUCCESS'']
              in case handler w s vaultClient tel cpe of
                   (tel, htr) \<Rightarrow>
                     (s\<lparr>commonPipelineEnvironment := cpe\<rparr>, tel, tr2 @ htr @ deferred))
         | (Fatal, tel, cpe) \<Rightarrow>
             (case handler w s vaultClient tel cpe of
                (tel, htr) \<Rightarrow>
                  (s\<lparr>commonPipelineEnvironment := cpe\<rparr>, tel, tr1 @ htr @ [Os_Exit]))
         | (Panicked, tel, cpe) \<Rightarrow>
             (case handler w s vaultClient tel cpe of
                (tel, htr) \<Rightarrow>
                  (s\<lparr>commonPipelineEnvironment := cpe\<rparr>, tel,
                   tr1 @ htr @ deferred @ [Panic_propagates])))"

subsection \<open>Reading a list of calls\<close>

text \<open>The call of the step function, the only call into the logic of the step.\<close>

fun isDomainCall :: "event \<Rightarrow> bool" where
  "isDomainCall (PythonBuild_call c t e) = True"
| "isDomainCall _ = False"

fun isSetResourceParameter :: "event \<Rightarrow> bool" where
  "isSetResourceParameter (Piperenv_SetResourceParameter p r k v) = True"
| "isSetResourceParameter _ = False"

fun isAssignErrorCode :: "event \<Rightarrow> bool" where
  "isAssignErrorCode (Assign_ErrorCode c) = True"
| "isAssignErrorCode _ = False"

fun isRegisterSecret :: "event \<Rightarrow> bool" where
  "isRegisterSecret (Log_RegisterSecret x) = True"
| "isRegisterSecret _ = False"

fun isValidateStruct :: "event \<Rightarrow> bool" where
  "isValidateStruct (Validation_ValidateStruct c) = True"
| "isValidateStruct _ = False"

text \<open>
  The three things the handler is there for: it persists the pipeline environment,
  removes the secret files of the vault and publishes the telemetry data.
\<close>

fun isHandlerWork :: "event \<Rightarrow> bool" where
  "isHandlerWork (Piperenv_SetResourceParameter p r k v) = True"
| "isHandlerWork Config_RemoveVaultSecretFiles = True"
| "isHandlerWork (Telemetry_SetData d) = True"
| "isHandlerWork Telemetry_LogStepTelemetryData = True"
| "isHandlerWork _ = False"

section \<open>Example inputs\<close>

text \<open>
  What \<^verbatim>\<open>strings.ToLower\<close> returns for a string of ASCII characters: the bytes of the
  upper-case letters get the bit that makes them lower-case letters.
\<close>

definition lowerByte :: "char \<Rightarrow> char" where
  "lowerByte c =
     (if CHR ''A'' \<le> c \<and> c \<le> CHR ''Z''
      then (case c of Char b0 b1 b2 b3 b4 b5 b6 b7 \<Rightarrow> Char b0 b1 b2 b3 b4 True b6 b7)
      else c)"

definition asciiToLower :: "string \<Rightarrow> string" where
  "asciiToLower s = map lowerByte s"

definition exampleEnv :: genv where
  "exampleEnv =
     \<lparr>stepParameterNames = [''publish'', ''targetRepositoryURL''],
      VaultRootPaths = [''{{vaultPath}}'', ''{{vaultBasePath}}/{{vaultPipelineName}}'',
                        ''{{vaultBasePath}}/GROUP-SECRETS''],
      RefTypeSystemTrustSecret = ''systemTrustSecret'',
      strings_ToLower = asciiToLower\<rparr>"

text \<open>A parameter that is mandatory only under a condition.\<close>

definition exampleParameter :: StepParameters where
  "exampleParameter =
     (stepParameter ''targetRepositoryURL'' [] [''PARAMETERS'', ''STAGES'', ''STEPS''] ''string''
        False [] VNil)
     \<lparr>MandatoryIf := [\<lparr>pd_Name = ''Publish'', pd_Value = ''true''\<rparr>]\<rparr>"

definition exampleGeneralConfig :: GeneralConfigOptions where
  "exampleGeneralConfig =
     \<lparr>Verbose = False, GitHubTokens = [], GitHubAccessTokens = [],
      CorrelationID = ''n/a'', EnvRootPath = ''.pipeline'',
      HookConfig =
        \<lparr>SentryConfig = \<lparr>sentry_Dsn = []\<rparr>,
         SplunkConfig = \<lparr>splunk_Dsn = ''https://splunk.example'', splunk_Token = ''t'',
                          splunk_Index = ''i'', splunk_SendLogs = True,
                          splunk_ProdCriblEndpoint = [], splunk_ProdCriblToken = [],
                          splunk_ProdCriblIndex = []\<rparr>,
         GCPPubSubConfig = \<lparr>gcp_Enabled = False, gcp_ProjectNumber = [], gcp_IdentityPool = [],
                             gcp_IdentityProvider = [], gcp_Topic = []\<rparr>,
         OIDCConfig = \<lparr>oidc_RoleID = []\<rparr>\<rparr>\<rparr>"

definition exampleGetenv :: "string \<Rightarrow> string" where
  "exampleGetenv name = (if name = ''PIPER_targetRepositoryUser'' then ''alice'' else [])"

definition exampleState :: cmdState where
  "exampleState = snd (PythonBuildCommand exampleGetenv exampleGeneralConfig)"

text \<open>
  A world in which the configuration is prepared: the password comes from the
  configuration, everything else succeeds.
\<close>

definition examplePreRunWorld :: preRunWorld where
  "examplePreRunWorld =
     \<lparr>time_Now = 100,
      ResolveAccessTokens = (\<lambda>tokens. []),
      os_Getwd = (''/home/build'', None),
      PrepareConfig = (\<lambda>stepData config. (config\<lparr>TargetRepositoryPassword := ''s3cret''\<rparr>, None)),
      RegisterANSHookIfConfigured = (\<lambda>correlationID. None),
      validation_New = None,
      ValidateStruct = (\<lambda>config. None)\<rparr>"

text \<open>A world in which preparing the configuration fails.\<close>

definition failingPreRunWorld :: preRunWorld where
  "failingPreRunWorld =
     examplePreRunWorld\<lparr>PrepareConfig := (\<lambda>stepData config. (config, Some ''no config''))\<rparr>"

section \<open>Properties of the sort\<close>

lemma mset_shiftLeft: "mset (shiftLeft lessFn x acc) = add_mset x (mset acc)"
  by (induction acc) simp_all

lemma mset_insertionSort_func:
  "mset (insertionSort_func lessFn acc xs) = mset acc + mset xs"
  by (induction xs arbitrary: acc) (simp_all add: mset_shiftLeft)

lemma mset_SliceStable: "mset (SliceStable xs lessFn) = mset xs"
  by (simp add: SliceStable_def mset_insertionSort_func)

text \<open>
  An element only passes elements it is less than; when "less" implies a different key,
  the elements of one key stay in the order they had.
\<close>

lemma filter_shiftLeft:
  assumes "\<And>y. lessFn x y \<Longrightarrow> \<not> (P x \<and> P y)"
  shows "filter P (shiftLeft lessFn x acc) = filter P (x # acc)"
  using assms by (induction acc) auto

lemma filter_insertionSort_func:
  assumes "\<And>x y. lessFn x y \<Longrightarrow> \<not> (P x \<and> P y)"
  shows "filter P (insertionSort_func lessFn acc xs) = filter P (rev acc) @ filter P xs"
  using assms
proof (induction xs arbitrary: acc)
  case Nil
  then show ?case by simp
next
  case (Cons x xs)
  have "filter P (shiftLeft lessFn x acc) = filter P (x # acc)"
    using Cons.prems by (rule filter_shiftLeft)
  then have "rev (filter P (shiftLeft lessFn x acc)) = rev (filter P acc) @ filter P [x]"
    by simp
  then have "filter P (rev (shiftLeft lessFn x acc)) = filter P (rev acc) @ filter P [x]"
    by (simp only: rev_filter)
  with Cons show ?case by simp
qed

lemma filter_SliceStable:
  assumes "\<And>x y. lessFn x y \<Longrightarrow> \<not> (P x \<and> P y)"
  shows "filter P (SliceStable xs lessFn) = filter P xs"
  using filter_insertionSort_func [of lessFn P "[]" xs] assms by (simp add: SliceStable_def)

lemma lessName_iff: "lessName p q \<longleftrightarrow> Name p < Name q"
  by (simp add: lessName_def strings_Compare_def)

lemma lessMandatoryName_iff:
  "lessMandatoryName p q \<longleftrightarrow>
     (isMandatory p \<and> \<not> isMandatory q) \<or> (isMandatory p = isMandatory q \<and> Name p < Name q)"
  by (auto simp add: lessMandatoryName_def strings_Compare_def)

lemma set_shiftLeft: "set (shiftLeft lessFn x acc) = insert x (set acc)"
  by (induction acc) auto

text \<open>
  The accumulator of the insertion sort stays in descending order, for a comparison that
  is asymmetric and whose negation is transitive.
\<close>

lemma sorted_shiftLeft:
  assumes asym: "\<And>a b. lessFn a b \<Longrightarrow> \<not> lessFn b a"
    and ntrans: "\<And>a b c. \<not> lessFn a b \<Longrightarrow> \<not> lessFn b c \<Longrightarrow> \<not> lessFn a c"
    and inv: "sorted_wrt (\<lambda>a b. \<not> lessFn a b) acc"
  shows "sorted_wrt (\<lambda>a b. \<not> lessFn a b) (shiftLeft lessFn x acc)"
  using inv
proof (induction acc)
  case Nil
  then show ?case by simp
next
  case (Cons y ys)
  show ?case
  proof (cases "lessFn x y")
    case True
    then have "\<not> lessFn y x" by (rule asym)
    with True Cons show ?thesis by (auto simp add: set_shiftLeft)
  next
    case False
    have "\<forall>z\<in>set ys. \<not> lessFn x z"
      using Cons.prems False ntrans by auto
    with False Cons.prems show ?thesis by simp
  qed
qed

lemma sorted_insertionSort_func:
  assumes asym: "\<And>a b. lessFn a b \<Longrightarrow> \<not> lessFn b a"
    and ntrans: "\<And>a b c. \<not> lessFn a b \<Longrightarrow> \<not> lessFn b c \<Longrightarrow> \<not> lessFn a c"
    and inv: "sorted_wrt (\<lambda>a b. \<not> lessFn a b) acc"
  shows "sorted_wrt (\<lambda>a b. \<not> lessFn b a) (insertionSort_func lessFn acc xs)"
  using inv
proof (induction xs arbitrary: acc)
  case Nil
  then show ?case by (simp add: sorted_wrt_rev)
next
  case (Cons x xs)
  have "sorted_wrt (\<lambda>a b. \<not> lessFn a b) (shiftLeft lessFn x acc)"
    using asym ntrans Cons.prems by (rule sorted_shiftLeft)
  then show ?case using Cons.IH by simp
qed

lemma sorted_SliceStable:
  assumes asym: "\<And>a b. lessFn a b \<Longrightarrow> \<not> lessFn b a"
    and ntrans: "\<And>a b c. \<not> lessFn a b \<Longrightarrow> \<not> lessFn b c \<Longrightarrow> \<not> lessFn a c"
  shows "sorted_wrt (\<lambda>a b. \<not> lessFn b a) (SliceStable xs lessFn)"
  unfolding SliceStable_def
  by (rule sorted_insertionSort_func [OF asym ntrans]) simp_all

lemma sorted_SliceStable_lessName: "sorted (map Name (SliceStable xs lessName))"
proof -
  have "sorted_wrt (\<lambda>a b. \<not> lessName b a) (SliceStable xs lessName)"
    by (rule sorted_SliceStable) (auto simp add: lessName_iff)
  then have "sorted_wrt (\<lambda>a b. Name a \<le> Name b) (SliceStable xs lessName)"
    by (simp add: lessName_iff not_less)
  then show ?thesis by (simp add: sorted_map)
qed

lemma sorted_wrt_SliceStable_lessMandatoryName:
  "sorted_wrt (\<lambda>a b. \<not> lessMandatoryName b a) (SliceStable xs lessMandatoryName)"
  by (rule sorted_SliceStable) (auto simp add: lessMandatoryName_iff)

lemma sorted_wrt_split:
  assumes "sorted_wrt R xs" and "\<And>a b. R a b \<Longrightarrow> P b \<Longrightarrow> P a"
  shows "xs = filter P xs @ filter (\<lambda>x. \<not> P x) xs"
  using assms(1)
proof (induction xs)
  case Nil
  then show ?case by simp
next
  case (Cons x xs)
  show ?case
  proof (cases "P x")
    case True
    with Cons show ?thesis by simp
  next
    case False
    have "\<forall>z\<in>set xs. \<not> P z" using Cons.prems False assms(2) by auto
    then have "filter P xs = []" "filter (\<lambda>x. \<not> P x) xs = xs" by (simp_all add: filter_empty_conv filter_id_conv)
    with False show ?thesis by simp
  qed
qed

lemma mandatory_first:
  "SliceStable xs lessMandatoryName =
     filter isMandatory (SliceStable xs lessMandatoryName)
     @ filter (\<lambda>p. \<not> isMandatory p) (SliceStable xs lessMandatoryName)"
  by (rule sorted_wrt_split [OF sorted_wrt_SliceStable_lessMandatoryName])
     (auto simp add: lessMandatoryName_iff)

lemma sorted_group:
  assumes "\<And>p. p \<in> set ys \<Longrightarrow> isMandatory p = m"
    and "sorted_wrt (\<lambda>a b. \<not> lessMandatoryName b a) ys"
  shows "sorted (map Name ys)"
proof -
  have "sorted_wrt (\<lambda>a b. Name a \<le> Name b) ys"
    using assms(2)
  proof (rule sorted_wrt_mono_rel [rotated])
    fix a b assume "a \<in> set ys" "b \<in> set ys" "\<not> lessMandatoryName b a"
    then show "Name a \<le> Name b" using assms(1) by (auto simp add: lessMandatoryName_iff not_less)
  qed
  then show ?thesis by (simp add: sorted_map)
qed

lemma sorted_groups:
  "sorted (map Name (filter isMandatory (SliceStable xs lessMandatoryName)))"
  "sorted (map Name (filter (\<lambda>p. \<not> isMandatory p) (SliceStable xs lessMandatoryName)))"
  by (rule sorted_group [where m = True], simp, rule sorted_wrt_filter, rule sorted_wrt_SliceStable_lessMandatoryName)
     (rule sorted_group [where m = False], simp, rule sorted_wrt_filter, rule sorted_wrt_SliceStable_lessMandatoryName)

lemma rangeParameters_setParameters [simp]:
  "rangeParameters (setParameters stepData (Some ps)) = ps"
  by (simp add: rangeParameters_def setParameters_def)

lemma SliceStable_Nil [simp]: "SliceStable [] lessFn = []"
  by (simp add: SliceStable_def)

lemma rangeParameters_sortStepParameters:
  "rangeParameters (sortStepParameters stepData considerMandatory) =
     SliceStable (rangeParameters stepData) (if considerMandatory then lessMandatoryName else lessName)"
  by (cases "Parameters (Inputs (Spec stepData))")
     (simp_all add: sortStepParameters_def rangeParameters_def setParameters_def)

text \<open>
  The insertion sort gives the list that the stable sort by key of the HOL library
  gives, for a comparison that is the order of a key: a stable sort has one result, so
  the merge steps the standard library adds for slices of more than 20 elements do not
  change it.  The key of \<open>lessName\<close> is the name; the key of \<open>lessMandatoryName\<close>
  is the pair of "not mandatory" and the name.
\<close>

lemma SliceStable_sort_key:
  fixes f :: "'a \<Rightarrow> 'k::linorder"
  assumes "\<And>a b. lessFn a b \<longleftrightarrow> f a < f b"
  shows "SliceStable xs lessFn = sort_key f xs"
proof (rule sym, rule properties_for_sort_key)
  show "mset (SliceStable xs lessFn) = mset xs"
    by (rule mset_SliceStable)
  show "filter (\<lambda>x. f k = f x) (SliceStable xs lessFn) = filter (\<lambda>x. f k = f x) xs" for k
    by (rule filter_SliceStable) (auto simp add: assms)
  have "sorted_wrt (\<lambda>a b. \<not> lessFn b a) (SliceStable xs lessFn)"
    by (rule sorted_SliceStable) (auto simp add: assms)
  then show "sorted (map f (SliceStable xs lessFn))"
    by (simp add: sorted_map assms not_less)
qed

lemma SliceStable_lessName_sort_key: "SliceStable xs lessName = sort_key Name xs"
  by (rule SliceStable_sort_key) (rule lessName_iff)

lemma SliceStable_lessMandatoryName_sort_key:
  "SliceStable xs lessMandatoryName = sort_key (\<lambda>p. (\<not> isMandatory p, Name p)) xs"
  by (rule SliceStable_sort_key) (auto simp add: lessMandatoryName_iff less_prod_def)

section \<open>The claims about the sort\<close>

text \<open>
  Claim C2.  \<^verbatim>\<open>sortStepParameters\<close> is a stable sort: for both values of
  \<^verbatim>\<open>considerMandatory\<close>, the parameters that compare equal under the ordering key (the
  same name, and with \<^verbatim>\<open>considerMandatory\<close> also the same mandatory status) are in the
  output in the order they had in the input.
\<close>

theorem sortStepParameters_stable:
  "filter (\<lambda>p. Name p = n \<and> isMandatory p = m) (rangeParameters (sortStepParameters stepData True))
     = filter (\<lambda>p. Name p = n \<and> isMandatory p = m) (rangeParameters stepData)
   \<and> filter (\<lambda>p. Name p = n) (rangeParameters (sortStepParameters stepData False))
     = filter (\<lambda>p. Name p = n) (rangeParameters stepData)"
proof
  show "filter (\<lambda>p. Name p = n \<and> isMandatory p = m) (rangeParameters (sortStepParameters stepData True))
     = filter (\<lambda>p. Name p = n \<and> isMandatory p = m) (rangeParameters stepData)"
    unfolding rangeParameters_sortStepParameters
    by (simp, rule filter_SliceStable) (auto simp add: lessMandatoryName_iff)
  show "filter (\<lambda>p. Name p = n) (rangeParameters (sortStepParameters stepData False))
     = filter (\<lambda>p. Name p = n) (rangeParameters stepData)"
    unfolding rangeParameters_sortStepParameters
    by (simp, rule filter_SliceStable) (auto simp add: lessName_iff)
qed

text \<open>
  Claim C9.  \<^verbatim>\<open>sortStepParameters\<close> produces a permutation of the parameter list:
  the multiset of the parameters, each with all its fields, is the one of the input; only
  the parameter list of the metadata changes; a nil list stays nil, and the metadata with
  a nil list is unchanged.
\<close>

theorem sortStepParameters_permutation:
  "mset (rangeParameters (sortStepParameters stepData considerMandatory))
     = mset (rangeParameters stepData)
   \<and> sortStepParameters stepData considerMandatory
     = setParameters stepData (Parameters (Inputs (Spec (sortStepParameters stepData considerMandatory))))
   \<and> (Parameters (Inputs (Spec (sortStepParameters stepData considerMandatory))) = None)
     = (Parameters (Inputs (Spec stepData)) = None)
   \<and> sortStepParameters (setParameters stepData None) considerMandatory = setParameters stepData None"
proof (intro conjI)
  show "mset (rangeParameters (sortStepParameters stepData considerMandatory))
     = mset (rangeParameters stepData)"
    by (simp only: rangeParameters_sortStepParameters mset_SliceStable)
  show "sortStepParameters stepData considerMandatory
     = setParameters stepData (Parameters (Inputs (Spec (sortStepParameters stepData considerMandatory))))"
    by (cases "Parameters (Inputs (Spec stepData))")
       (simp_all add: sortStepParameters_def setParameters_def)
  show "(Parameters (Inputs (Spec (sortStepParameters stepData considerMandatory))) = None)
     = (Parameters (Inputs (Spec stepData)) = None)"
    by (cases "Parameters (Inputs (Spec stepData))")
       (simp_all add: sortStepParameters_def setParameters_def)
  show "sortStepParameters (setParameters stepData None) considerMandatory = setParameters stepData None"
    by (simp add: sortStepParameters_def setParameters_def)
qed

text \<open>
  Claim C1.  \<^verbatim>\<open>createParametersSection\<close> renders the two overview tables from the
  list sorted with the mandatory parameters (\<^verbatim>\<open>Mandatory\<close> true or \<^verbatim>\<open>MandatoryIf\<close>
  not empty) before all the others, each of the two groups ascending by name, and renders
  the details from the list sorted again, ascending by name alone.  The order of the names
  is the order of Go's strings, byte by byte.  Both lists are permutations of the list
  of the metadata.
\<close>

theorem createParametersSection_sorts:
  "(let shown = rangeParameters (sortStepParameters stepData True);
        detailed = rangeParameters (sortStepParameters (sortStepParameters stepData True) False)
    in fst (createParametersSection env stepData)
         = ''## Parameters\<newline>\<newline>''
           @ ''### Overview - Step\<newline>\<newline>''
           @ createParameterOverview env (sortStepParameters stepData True) False
           @ ''### Overview - Execution Environment\<newline>\<newline>''
           @ ''!!! note '' @ [CHR 0x22] @ ''Orchestrator-specific only'' @ [CHR 0x22]
           @ ''\<newline>\<newline>    These parameters are relevant for orchestrator usage and not considered when using the command line option.\<newline>\<newline>''
           @ createParameterOverview env (sortStepParameters stepData True) True
           @ ''### Details\<newline>\<newline>''
           @ createParameterDetails env (sortStepParameters (sortStepParameters stepData True) False)
       \<and> snd (createParametersSection env stepData)
         = sortStepParameters (sortStepParameters stepData True) False
       \<and> shown = filter isMandatory shown @ filter (\<lambda>p. \<not> isMandatory p) shown
       \<and> sorted (map Name (filter isMandatory shown))
       \<and> sorted (map Name (filter (\<lambda>p. \<not> isMandatory p) shown))
       \<and> mset shown = mset (rangeParameters stepData)
       \<and> sorted (map Name detailed)
       \<and> mset detailed = mset (rangeParameters stepData))"
  unfolding Let_def
proof (intro conjI)
  show "fst (createParametersSection env stepData)
         = ''## Parameters\<newline>\<newline>''
           @ ''### Overview - Step\<newline>\<newline>''
           @ createParameterOverview env (sortStepParameters stepData True) False
           @ ''### Overview - Execution Environment\<newline>\<newline>''
           @ ''!!! note '' @ [CHR 0x22] @ ''Orchestrator-specific only'' @ [CHR 0x22]
           @ ''\<newline>\<newline>    These parameters are relevant for orchestrator usage and not considered when using the command line option.\<newline>\<newline>''
           @ createParameterOverview env (sortStepParameters stepData True) True
           @ ''### Details\<newline>\<newline>''
           @ createParameterDetails env (sortStepParameters (sortStepParameters stepData True) False)"
    by (simp add: createParametersSection_def Let_def)
  show "snd (createParametersSection env stepData)
         = sortStepParameters (sortStepParameters stepData True) False"
    by (simp add: createParametersSection_def Let_def)
  show "rangeParameters (sortStepParameters stepData True)
      = filter isMandatory (rangeParameters (sortStepParameters stepData True))
        @ filter (\<lambda>p. \<not> isMandatory p) (rangeParameters (sortStepParameters stepData True))"
    unfolding rangeParameters_sortStepParameters using mandatory_first by simp
  show "sorted (map Name (filter isMandatory (rangeParameters (sortStepParameters stepData True))))"
    unfolding rangeParameters_sortStepParameters using sorted_groups(1) by simp
  show "sorted (map Name (filter (\<lambda>p. \<not> isMandatory p) (rangeParameters (sortStepParameters stepData True))))"
    unfolding rangeParameters_sortStepParameters using sorted_groups(2) by simp
  show "mset (rangeParameters (sortStepParameters stepData True)) = mset (rangeParameters stepData)"
    by (simp only: rangeParameters_sortStepParameters mset_SliceStable)
  show "sorted (map Name (rangeParameters (sortStepParameters (sortStepParameters stepData True) False)))"
    unfolding rangeParameters_sortStepParameters using sorted_SliceStable_lessName by simp
  show "mset (rangeParameters (sortStepParameters (sortStepParameters stepData True) False))
      = mset (rangeParameters stepData)"
    by (simp only: rangeParameters_sortStepParameters mset_SliceStable)
qed

lemma snd_checkParameterInfo:
  "(snd (checkParameterInfo furtherInfo stepParam executionEnvironment) = None)
     = (stepParam \<noteq> executionEnvironment)"
  by (auto simp add: checkParameterInfo_def)

lemma snd_stepParameterInfo:
  "(snd (stepParameterInfo env paramName executionEnvironment ps) = None)
     = (\<not> executionEnvironment)"
  by (induction ps) (simp_all add: snd_checkParameterInfo Let_def)

text \<open>Whether a name is taken as a step parameter does not depend on the table asked for.\<close>

lemma snd_parameterFurtherInfo:
  "(snd (parameterFurtherInfo env paramName stepData executionEnvironment) = None)
     = ((paramName = ''verbose'' \<or> paramName = ''script''
         \<or> contains (stepParameterNames env) paramName
         \<or> jenkinsSecretNamed paramName (Secrets (Inputs (Spec stepData))))
        \<noteq> executionEnvironment)"
  by (simp add: parameterFurtherInfo_def snd_checkParameterInfo snd_stepParameterInfo)

lemma overviewLoop_rows:
  "overviewLoop env stepData executionEnvironment table ps =
     table @ concat (map (\<lambda>p. overviewRow env p
                                (fst (parameterFurtherInfo env (Name p) stepData executionEnvironment)))
                       (filter (\<lambda>p. snd (parameterFurtherInfo env (Name p) stepData executionEnvironment) = None)
                          ps))"
  by (induction ps arbitrary: table) (auto split: prod.splits option.splits)

section \<open>The claims about the overview tables\<close>

text \<open>
  Claim C8.  \<^verbatim>\<open>checkParameterInfo\<close> returns the text it is given and a nil error
  exactly when \<^verbatim>\<open>stepParam\<close> and \<^verbatim>\<open>executionEnvironment\<close> differ, and the empty
  string and an error exactly when they are equal.  So a name gets a row in exactly one of
  the two tables of \<^verbatim>\<open>createParameterOverview\<close>: the rows of a table are the rows of
  the parameters for which \<^verbatim>\<open>parameterFurtherInfo\<close> returns a nil error, and for every
  name it does so for exactly one of the two values of \<^verbatim>\<open>executionEnvironment\<close>.
\<close>

theorem checkParameterInfo_one_table:
  "(checkParameterInfo furtherInfo stepParam executionEnvironment = (furtherInfo, None))
     = (stepParam \<noteq> executionEnvironment)
   \<and> (fst (checkParameterInfo furtherInfo stepParam executionEnvironment) = []
      \<and> snd (checkParameterInfo furtherInfo stepParam executionEnvironment) \<noteq> None)
     = (stepParam = executionEnvironment)
   \<and> (snd (parameterFurtherInfo env paramName stepData False) = None)
     \<noteq> (snd (parameterFurtherInfo env paramName stepData True) = None)
   \<and> createParameterOverview env stepData executionEnvironment
     = ''| Name | Mandatory | Additional information |\<newline>''
       @ ''| ---- | --------- | ---------------------- |\<newline>''
       @ concat (map (\<lambda>p. overviewRow env p
                            (fst (parameterFurtherInfo env (Name p) stepData executionEnvironment)))
                   (filter (\<lambda>p. snd (parameterFurtherInfo env (Name p) stepData executionEnvironment) = None)
                      (rangeParameters stepData)))
       @ ''\<newline>''"
proof (intro conjI)
  show "(checkParameterInfo furtherInfo stepParam executionEnvironment = (furtherInfo, None))
     = (stepParam \<noteq> executionEnvironment)"
    by (auto simp add: checkParameterInfo_def)
  show "(fst (checkParameterInfo furtherInfo stepParam executionEnvironment) = []
      \<and> snd (checkParameterInfo furtherInfo stepParam executionEnvironment) \<noteq> None)
     = (stepParam = executionEnvironment)"
    by (auto simp add: checkParameterInfo_def)
  show "(snd (parameterFurtherInfo env paramName stepData False) = None)
     \<noteq> (snd (parameterFurtherInfo env paramName stepData True) = None)"
    by (simp only: snd_parameterFurtherInfo) auto
  show "createParameterOverview env stepData executionEnvironment
     = ''| Name | Mandatory | Additional information |\<newline>''
       @ ''| ---- | --------- | ---------------------- |\<newline>''
       @ concat (map (\<lambda>p. overviewRow env p
                            (fst (parameterFurtherInfo env (Name p) stepData executionEnvironment)))
                   (filter (\<lambda>p. snd (parameterFurtherInfo env (Name p) stepData executionEnvironment) = None)
                      (rangeParameters stepData)))
       @ ''\<newline>''"
    by (simp add: createParameterOverview_def overviewLoop_rows)
qed

lemma foldl_snoc_map: "foldl (\<lambda>acc c. acc @ [f c]) init xs = init @ map f xs"
  by (induction xs arbitrary: init) simp_all

lemma strings_Join_nonempty: "xs \<noteq> [] \<Longrightarrow> hd xs \<noteq> [] \<Longrightarrow> strings_Join xs sep \<noteq> []"
  by (induction xs sep rule: strings_Join.induct) simp_all

text \<open>
  Claim C10.  For a parameter with a non-empty \<^verbatim>\<open>MandatoryIf\<close>,
  \<^verbatim>\<open>parameterMandatoryInformation\<close> returns \<^verbatim>\<open>mandatory = true\<close> whatever the field
  \<^verbatim>\<open>Mandatory\<close> is, appends the list of conditions headed "mandatory in case of:" to
  the text it is given, and returns the string \<^verbatim>\<open>**(yes)**\<close>; for every parameter the
  string is \<^verbatim>\<open>**(yes)**\<close> when the text it returns is not empty and \<^verbatim>\<open>**yes**\<close> when
  it is.
\<close>

theorem parameterMandatoryInformation_mandatoryIf:
  "(MandatoryIf param \<noteq> [] \<longrightarrow>
      parameterMandatoryInformation env param furtherInfo =
        (True, ''**(yes)**'',
         (if furtherInfo = [] then [] else furtherInfo @ ''<br />'')
         @ strings_Join (''mandatory in case of:'' # map (mandatoryCondition env) (MandatoryIf param))
             ''<br />''))
   \<and> fst (snd (parameterMandatoryInformation env param furtherInfo))
     = (if snd (snd (parameterMandatoryInformation env param furtherInfo)) \<noteq> []
        then ''**(yes)**'' else ''**yes**'')"
proof (intro conjI impI)
  assume ne: "MandatoryIf param \<noteq> []"
  have "strings_Join (''mandatory in case of:'' # map (mandatoryCondition env) (MandatoryIf param))
          ''<br />'' \<noteq> []"
    by (rule strings_Join_nonempty) simp_all
  with ne show "parameterMandatoryInformation env param furtherInfo =
        (True, ''**(yes)**'',
         (if furtherInfo = [] then [] else furtherInfo @ ''<br />'')
         @ strings_Join (''mandatory in case of:'' # map (mandatoryCondition env) (MandatoryIf param))
             ''<br />'')"
    by (simp add: parameterMandatoryInformation_def Let_def foldl_snoc_map)
next
  show "fst (snd (parameterMandatoryInformation env param furtherInfo))
     = (if snd (snd (parameterMandatoryInformation env param furtherInfo)) \<noteq> []
        then ''**(yes)**'' else ''**yes**'')"
    by (simp add: parameterMandatoryInformation_def Let_def)
qed

theorem parameterMandatoryInformation_mandatoryIf_witness:
  "MandatoryIf exampleParameter \<noteq> []
   \<and> \<not> Mandatory exampleParameter
   \<and> parameterMandatoryInformation exampleEnv exampleParameter ''info''
     = (True, ''**(yes)**'', ''info<br />mandatory in case of:<br />- [`Publish`](#publish)=`true`'')"
  using parameterMandatoryInformation_mandatoryIf [of exampleParameter exampleEnv "''info''"]
  by (simp add: exampleParameter_def stepParameter_def exampleEnv_def mandatoryCondition_def
        asciiToLower_def lowerByte_def)

lemma path_Join_custom: "path_Join [''custom'', ''buildSettingsInfo''] = ''custom/buildSettingsInfo''"
  by (simp add: path_Join_def path_Clean_def)

lemma persist_events:
  "persist setResourceParameter p path resourceName =
     Piperenv_SetResourceParameter path resourceName ''custom/buildSettingsInfo''
       (VString (buildSettingsInfo (custom p)))
     # (case setResourceParameter path resourceName ''custom/buildSettingsInfo''
               (VString (buildSettingsInfo (custom p))) of
          Some err \<Rightarrow> [Log_Error ''Error persisting piper environment.'',
                       Log_Error ''failed to persist Piper environment'']
        | None \<Rightarrow> [])"
  by (simp add: persist_def persist_content_def path_Join_custom split: option.splits)

section \<open>The claims about the command\<close>

text \<open>
  Claim C4.  \<^verbatim>\<open>persist\<close> writes exactly one key of the resource: it calls
  \<^verbatim>\<open>piperenv.SetResourceParameter\<close> once, for the key \<^verbatim>\<open>custom/buildSettingsInfo\<close>
  with the value of the field \<^verbatim>\<open>custom.buildSettingsInfo\<close>, and that key is the one
  output parameter the step metadata declares for the common pipeline environment.
\<close>

theorem persist_writes_buildSettingsInfo:
  "filter isSetResourceParameter (persist setResourceParameter p path resourceName)
     = [Piperenv_SetResourceParameter path resourceName ''custom/buildSettingsInfo''
          (VString (buildSettingsInfo (custom p)))]
   \<and> declaredOutputParameters (pythonBuildMetadata getenv) ''commonPipelineEnvironment''
     = [VString ''custom/buildSettingsInfo'']"
  by (simp add: persist_events declaredOutputParameters_def pythonBuildMetadata_def
        split: option.splits)

text \<open>
  Claim C5.  The ten flags that \<^verbatim>\<open>addPythonBuildFlags\<close> registers have, in the same
  order, the names of the ten parameters of \<^verbatim>\<open>pythonBuildMetadata\<close>, and the default
  value of each flag is the default of the parameter of its name, for the same
  environment of the process.
\<close>

theorem flag_defaults_match_metadata:
  "map (\<lambda>f. (flagName f, flagDefault f)) (addPythonBuildFlags getenv)
     = map (\<lambda>p. (Name p, Default p)) (rangeParameters (pythonBuildMetadata getenv))
   \<and> length (addPythonBuildFlags getenv) = 10
   \<and> distinct (map flagName (addPythonBuildFlags getenv))
   \<and> map (\<lambda>f. (flagName f, flagDefault f)) (addPythonBuildFlags getenv)
     = [(''buildFlags'', VStringSlice []), (''setupFlags'', VStringSlice []),
        (''createBOM'', VBool False), (''publish'', VBool False),
        (''targetRepositoryPassword'', VString (getenv ''PIPER_targetRepositoryPassword'')),
        (''targetRepositoryUser'', VString (getenv ''PIPER_targetRepositoryUser'')),
        (''targetRepositoryURL'', VString (getenv ''PIPER_targetRepositoryURL'')),
        (''buildSettingsInfo'', VString (getenv ''PIPER_buildSettingsInfo'')),
        (''virutalEnvironmentName'', VString ''piperBuild-env''),
        (''requirementsFilePath'', VString ''requirements.txt'')]"
  by (simp add: addPythonBuildFlags_def pythonBuildMetadata_def rangeParameters_def
        stepParameter_def)

lemma handler_trace:
  "snd (handler w s vaultClient tel cpe) =
     persist (SetResourceParameter w) cpe (EnvRootPath (GeneralConfig s)) ''commonPipelineEnvironment''
     @ [Config_RemoveVaultSecretFiles, Telemetry_SetData (fst (handler w s vaultClient tel cpe)),
        Telemetry_LogStepTelemetryData]
     @ drop (length (persist (SetResourceParameter w) cpe (EnvRootPath (GeneralConfig s))
                      ''commonPipelineEnvironment'') + 3)
         (snd (handler w s vaultClient tel cpe))"
  by (simp add: handler_def Let_def split: option.splits)

lemma handler_rest_quiet:
  "e \<in> set (drop (length (persist (SetResourceParameter w) cpe (EnvRootPath (GeneralConfig s))
                      ''commonPipelineEnvironment'') + 3)
               (snd (handler w s vaultClient tel cpe)))
   \<Longrightarrow> \<not> isDomainCall e \<and> \<not> isAssignErrorCode e \<and> \<not> isHandlerWork e"
  by (auto simp add: handler_def Let_def split: option.splits if_splits)

lemma persist_quiet:
  "e \<in> set (persist f cpe path r) \<Longrightarrow> \<not> isDomainCall e \<and> \<not> isAssignErrorCode e"
  by (auto simp add: persist_events split: option.splits)

lemma filter_handler_domain: "filter isDomainCall (snd (handler w s v tel cpe)) = []"
  apply (subst handler_trace)
  apply (auto simp add: filter_empty_conv dest: handler_rest_quiet persist_quiet)
  done

lemma filter_handler_assign: "filter isAssignErrorCode (snd (handler w s v tel cpe)) = []"
  apply (subst handler_trace)
  apply (auto simp add: filter_empty_conv dest: handler_rest_quiet persist_quiet)
  done

lemma handler_no_domain: "e \<in> set (snd (handler w s v tel cpe)) \<Longrightarrow> \<not> isDomainCall e"
  using filter_handler_domain [of w s v tel cpe] by (auto simp add: filter_empty_conv)

lemma filter_handler_work:
  "filter (\<lambda>e. isAssignErrorCode e \<or> isHandlerWork e) (snd (handler w s v tel cpe)) =
     [Piperenv_SetResourceParameter (EnvRootPath (GeneralConfig s)) ''commonPipelineEnvironment''
        ''custom/buildSettingsInfo'' (VString (buildSettingsInfo (custom cpe))),
      Config_RemoveVaultSecretFiles, Telemetry_SetData (fst (handler w s v tel cpe)),
      Telemetry_LogStepTelemetryData]"
proof -
  have "filter (\<lambda>e. isAssignErrorCode e \<or> isHandlerWork e)
          (drop (length (persist (SetResourceParameter w) cpe (EnvRootPath (GeneralConfig s))
                      ''commonPipelineEnvironment'') + 3)
             (snd (handler w s v tel cpe))) = []"
    by (auto simp add: filter_empty_conv dest: handler_rest_quiet)
  then show ?thesis
    by (subst handler_trace) (simp add: persist_events split: option.splits)
qed

lemma ErrorCode_handler: "ErrorCode (fst (handler w s v tel cpe)) = ErrorCode tel"
  by (simp add: handler_def Let_def)

text \<open>The calls of \<^verbatim>\<open>Run\<close>, whatever way the step function ends.\<close>

lemma Run_trace:
  "snd (snd (Run w s)) =
     (let tel1 = \<lparr>ErrorCode = ''1'', Duration = [], ErrorCategory = [], PiperCommitHash = []\<rparr>;
          result = pythonBuild w (stepConfig s) tel1 (commonPipelineEnvironment s);
          tel = (if fst result = Returned then (fst (snd result))\<lparr>ErrorCode := ''0''\<rparr>
                 else fst (snd result))
      in [Config_GlobalVaultClient, Assign_ErrorCode ''1'', Log_DeferExitHandler,
          Telemetry_Initialize STEP_NAME]
         @ [PythonBuild_call (stepConfig s) tel1 (commonPipelineEnvironment s)]
         @ (if fst result = Returned then [Assign_ErrorCode ''0'', Log_Info ''SUCCESS''] else [])
         @ snd (handler w s (GlobalVaultClient w) tel (snd (snd result)))
         @ (if fst result = Fatal then [Os_Exit]
            else (if GlobalVaultClient w then [VaultClient_MustRevokeToken] else [])
                 @ (if fst result = Panicked then [Panic_propagates] else [])))"
proof -
  obtain oc tel cpe where r: "pythonBuild w (stepConfig s)
      \<lparr>ErrorCode = ''1'', Duration = [], ErrorCategory = [], PiperCommitHash = []\<rparr>
      (commonPipelineEnvironment s) = (oc, tel, cpe)"
    by (cases "pythonBuild w (stepConfig s)
      \<lparr>ErrorCode = ''1'', Duration = [], ErrorCategory = [], PiperCommitHash = []\<rparr>
      (commonPipelineEnvironment s)") auto
  show ?thesis
    by (cases oc) (simp_all add: Run_def Let_def r split: prod.splits)
qed

lemma Run_telemetry:
  "fst (snd (Run w s)) =
     (let tel1 = \<lparr>ErrorCode = ''1'', Duration = [], ErrorCategory = [], PiperCommitHash = []\<rparr>;
          result = pythonBuild w (stepConfig s) tel1 (commonPipelineEnvironment s);
          tel = (if fst result = Returned then (fst (snd result))\<lparr>ErrorCode := ''0''\<rparr>
                 else fst (snd result))
      in fst (handler w s (GlobalVaultClient w) tel (snd (snd result))))"
proof -
  obtain oc tel cpe where r: "pythonBuild w (stepConfig s)
      \<lparr>ErrorCode = ''1'', Duration = [], ErrorCategory = [], PiperCommitHash = []\<rparr>
      (commonPipelineEnvironment s) = (oc, tel, cpe)"
    by (cases "pythonBuild w (stepConfig s)
      \<lparr>ErrorCode = ''1'', Duration = [], ErrorCategory = [], PiperCommitHash = []\<rparr>
      (commonPipelineEnvironment s)") auto
  show ?thesis
    by (cases oc) (simp_all add: Run_def Let_def r split: prod.splits)
qed



lemma PreRunE_Getwd_fails:
  "os_Getwd w = (path, Some err) \<Longrightarrow>
     PreRunE w s =
       (Some err,
        s\<lparr>startTime := time_Now w,
          GeneralConfig := (GeneralConfig s)\<lparr>GitHubAccessTokens :=
             ResolveAccessTokens w (GitHubTokens (GeneralConfig s))\<rparr>\<rparr>,
        [Time_Now, Log_SetStepName STEP_NAME, Log_SetVerbose (Verbose (GeneralConfig s)),
         ResolveAccessTokens_call (GitHubTokens (GeneralConfig s)), Os_Getwd])"
  by (simp add: PreRunE_def Let_def)

lemma PreRunE_PrepareConfig_fails:
  "os_Getwd w = (path, None) \<Longrightarrow>
   PrepareConfig w (metadata s) (stepConfig s) = (config, Some err) \<Longrightarrow>
     PreRunE w s =
       (Some err,
        s\<lparr>startTime := time_Now w,
          GeneralConfig := (GeneralConfig s)\<lparr>GitHubAccessTokens :=
             ResolveAccessTokens w (GitHubTokens (GeneralConfig s))\<rparr>,
          stepConfig := config\<rparr>,
        [Time_Now, Log_SetStepName STEP_NAME, Log_SetVerbose (Verbose (GeneralConfig s)),
         ResolveAccessTokens_call (GitHubTokens (GeneralConfig s)), Os_Getwd,
         Log_RegisterHook (FatalHook (CorrelationID (GeneralConfig s)) path),
         PrepareConfig_call STEP_NAME (stepConfig s),
         Log_SetErrorCategory ''ErrorConfiguration''])"
  by (simp add: PreRunE_def Let_def)

lemma stepConfig_if: "stepConfig (if c then a else b) = (if c then stepConfig a else stepConfig b)"
  by simp

lemma PreRunE_configured_state:
  assumes gw: "os_Getwd w = (path, None)"
    and pc: "PrepareConfig w (metadata s) (stepConfig s) = (config, None)"
  shows "stepConfig (fst (snd (PreRunE w s))) = config"
  by (simp add: PreRunE_def Let_def gw pc stepConfig_if split: option.splits)

text \<open>The calls of \<^verbatim>\<open>PreRunE\<close> when the configuration has been prepared.\<close>

lemma PreRunE_configured_calls:
  assumes gw: "os_Getwd w = (path, None)"
    and pc: "PrepareConfig w (metadata s) (stepConfig s) = (config, None)"
  shows "snd (snd (PreRunE w s)) =
     [Time_Now, Log_SetStepName STEP_NAME, Log_SetVerbose (Verbose (GeneralConfig s)),
      ResolveAccessTokens_call (GitHubTokens (GeneralConfig s)), Os_Getwd,
      Log_RegisterHook (FatalHook (CorrelationID (GeneralConfig s)) path),
      PrepareConfig_call STEP_NAME (stepConfig s)]
     @ [Log_RegisterSecret (TargetRepositoryPassword config),
        Log_RegisterSecret (TargetRepositoryUser config)]
     @ (if length (sentry_Dsn (SentryConfig (HookConfig (GeneralConfig s)))) > 0
        then [Log_NewSentryHook (sentry_Dsn (SentryConfig (HookConfig (GeneralConfig s))))
                (CorrelationID (GeneralConfig s)),
              Log_RegisterHook (SentryHook (sentry_Dsn (SentryConfig (HookConfig (GeneralConfig s))))
                (CorrelationID (GeneralConfig s)))]
        else [])
     @ (if length (splunk_Dsn (SplunkConfig (HookConfig (GeneralConfig s)))) > 0
            \<or> length (splunk_ProdCriblEndpoint (SplunkConfig (HookConfig (GeneralConfig s)))) > 0
        then [Log_RegisterHook (CollectorHook (CorrelationID (GeneralConfig s)))]
        else [])
     @ [Log_RegisterANSHookIfConfigured (CorrelationID (GeneralConfig s))]
     @ (case RegisterANSHookIfConfigured w (CorrelationID (GeneralConfig s)) of
          Some err \<Rightarrow> [Log_Warn ''failed to set up SAP Alert Notification Service log hook'']
        | None \<Rightarrow> [])
     @ [Validation_New]
     @ (case validation_New w of
          Some err \<Rightarrow> []
        | None \<Rightarrow>
            Validation_ValidateStruct config
            # (case ValidateStruct w config of
                 Some err \<Rightarrow> [Log_SetErrorCategory ''ErrorConfiguration'']
               | None \<Rightarrow> []))"
proof (cases "validation_New w")
  case None
  then show ?thesis
    by (cases "ValidateStruct w config")
       (simp_all add: PreRunE_def Let_def gw pc stepConfig_if)
next
  case (Some e)
  then show ?thesis
    by (simp add: PreRunE_def Let_def gw pc)
qed

lemma PreRunE_configured_secrets:
  assumes gw: "os_Getwd w = (path, None)"
    and pc: "PrepareConfig w (metadata s) (stepConfig s) = (config, None)"
  shows "filter (\<lambda>e. isRegisterSecret e \<or> isValidateStruct e) (snd (snd (PreRunE w s)))
          = [Log_RegisterSecret (TargetRepositoryPassword config),
             Log_RegisterSecret (TargetRepositoryUser config)]
            @ (if validation_New w = None then [Validation_ValidateStruct config] else [])"
  by (simp add: PreRunE_configured_calls [OF gw pc] split: option.splits)

text \<open>
  Claim C7.  When \<^verbatim>\<open>PrepareConfig\<close> is called and succeeds, \<^verbatim>\<open>PreRunE\<close> registers
  the password and the user of the target repository of the configuration it has filled
  in as secrets with the \<^verbatim>\<open>log\<close> package, in that order and before the struct is
  validated; when \<^verbatim>\<open>PrepareConfig\<close> fails, \<^verbatim>\<open>PreRunE\<close> returns its error and
  registers no secret.  \<^verbatim>\<open>PrepareConfig\<close> is called when the working directory has
  been found.
\<close>

theorem PreRunE_registers_secrets:
  "snd (os_Getwd w) = None \<Longrightarrow>
     (case PrepareConfig w (metadata s) (stepConfig s) of
        (config, None) \<Rightarrow>
          stepConfig (fst (snd (PreRunE w s))) = config
          \<and> filter (\<lambda>e. isRegisterSecret e \<or> isValidateStruct e) (snd (snd (PreRunE w s)))
            = [Log_RegisterSecret (TargetRepositoryPassword config),
               Log_RegisterSecret (TargetRepositoryUser config)]
              @ (if validation_New w = None then [Validation_ValidateStruct config] else [])
      | (config, Some err) \<Rightarrow>
          fst (PreRunE w s) = Some err
          \<and> filter isRegisterSecret (snd (snd (PreRunE w s))) = [])"
proof -
  assume g: "snd (os_Getwd w) = None"
  obtain path where gw: "os_Getwd w = (path, None)"
    using g by (cases "os_Getwd w") auto
  obtain config err where pc: "PrepareConfig w (metadata s) (stepConfig s) = (config, err)"
    by (cases "PrepareConfig w (metadata s) (stepConfig s)") auto
  show ?thesis
  proof (cases err)
    case None
    with pc have pc': "PrepareConfig w (metadata s) (stepConfig s) = (config, None)" by simp
    show ?thesis
      using PreRunE_configured_state [OF gw pc'] PreRunE_configured_secrets [OF gw pc']
      by (simp add: pc')
  next
    case (Some e)
    with pc have pc': "PrepareConfig w (metadata s) (stepConfig s) = (config, Some e)" by simp
    show ?thesis
      by (simp add: pc' PreRunE_PrepareConfig_fails [OF gw pc'])
  qed
qed

theorem PreRunE_registers_secrets_witness:
  "snd (os_Getwd examplePreRunWorld) = None
   \<and> filter (\<lambda>e. isRegisterSecret e \<or> isValidateStruct e)
        (snd (snd (PreRunE examplePreRunWorld exampleState)))
     = [Log_RegisterSecret ''s3cret'', Log_RegisterSecret ''alice'',
        Validation_ValidateStruct (stepConfig (fst (snd (PreRunE examplePreRunWorld exampleState))))]
   \<and> snd (os_Getwd failingPreRunWorld) = None
   \<and> fst (PreRunE failingPreRunWorld exampleState) = Some ''no config''
   \<and> filter isRegisterSecret (snd (snd (PreRunE failingPreRunWorld exampleState))) = []"
proof -
  have h1: "snd (os_Getwd examplePreRunWorld) = None"
    by (simp add: examplePreRunWorld_def)
  have h2: "snd (os_Getwd failingPreRunWorld) = None"
    by (simp add: failingPreRunWorld_def examplePreRunWorld_def)
  have c: "TargetRepositoryUser (stepConfig exampleState) = ''alice''"
    by (simp add: exampleState_def PythonBuildCommand_def addPythonBuildFlags_def exampleGetenv_def)
  show ?thesis
    using h1 h2 c
      PreRunE_registers_secrets [OF h1, of exampleState]
      PreRunE_registers_secrets [OF h2, of exampleState]
    by (simp add: examplePreRunWorld_def failingPreRunWorld_def)
qed

text \<open>
  Claim C3.  In every execution \<^verbatim>\<open>Run\<close> calls the step function \<^verbatim>\<open>pythonBuild\<close>
  exactly once and makes no other call into the logic of a step; it passes the
  configuration of the command, the telemetry data and the common pipeline environment.
  The configuration is the one the flags have given their defaults and, after
  \<^verbatim>\<open>PreRunE\<close>, the one \<^verbatim>\<open>PrepareConfig\<close> has filled in.
\<close>

theorem Run_calls_pythonBuild_once:
  "filter isDomainCall (snd (snd (Run w s)))
     = [PythonBuild_call (stepConfig s)
          \<lparr>ErrorCode = ''1'', Duration = [], ErrorCategory = [], PiperCommitHash = []\<rparr>
          (commonPipelineEnvironment s)]
   \<and> (case os_Getwd pw of
        (path, None) \<Rightarrow>
          stepConfig (fst (snd (PreRunE pw s0))) = fst (PrepareConfig pw (metadata s0) (stepConfig s0))
      | (path, Some err) \<Rightarrow> stepConfig (fst (snd (PreRunE pw s0))) = stepConfig s0)
   \<and> stepConfig (snd (PythonBuildCommand getenv generalConfig))
     = \<lparr>BuildFlags = [], SetupFlags = [], CreateBOM = False, Publish = False,
        TargetRepositoryPassword = getenv ''PIPER_targetRepositoryPassword'',
        TargetRepositoryUser = getenv ''PIPER_targetRepositoryUser'',
        TargetRepositoryURL = getenv ''PIPER_targetRepositoryURL'',
        BuildSettingsInfo = getenv ''PIPER_buildSettingsInfo'',
        VirutalEnvironmentName = ''piperBuild-env'',
        RequirementsFilePath = ''requirements.txt''\<rparr>"
proof (intro conjI)
  show "filter isDomainCall (snd (snd (Run w s)))
     = [PythonBuild_call (stepConfig s)
          \<lparr>ErrorCode = ''1'', Duration = [], ErrorCategory = [], PiperCommitHash = []\<rparr>
          (commonPipelineEnvironment s)]"
    by (simp add: Run_trace Let_def filter_handler_domain)
  show "case os_Getwd pw of
        (path, None) \<Rightarrow>
          stepConfig (fst (snd (PreRunE pw s0))) = fst (PrepareConfig pw (metadata s0) (stepConfig s0))
      | (path, Some err) \<Rightarrow> stepConfig (fst (snd (PreRunE pw s0))) = stepConfig s0"
  proof (cases "os_Getwd pw")
    case (Pair path err)
    show ?thesis
    proof (cases err)
      case None
      with Pair have gw: "os_Getwd pw = (path, None)" by simp
      obtain config e where pc: "PrepareConfig pw (metadata s0) (stepConfig s0) = (config, e)"
        by (cases "PrepareConfig pw (metadata s0) (stepConfig s0)") auto
      show ?thesis
      proof (cases e)
        case None
        with pc have pc': "PrepareConfig pw (metadata s0) (stepConfig s0) = (config, None)" by simp
        show ?thesis using PreRunE_configured_state [OF gw pc'] by (simp add: gw pc')
      next
        case (Some x)
        with pc have pc': "PrepareConfig pw (metadata s0) (stepConfig s0) = (config, Some x)" by simp
        show ?thesis by (simp add: gw pc' PreRunE_PrepareConfig_fails [OF gw pc'])
      qed
    next
      case (Some x)
      with Pair have gw: "os_Getwd pw = (path, Some x)" by simp
      show ?thesis by (simp add: gw PreRunE_Getwd_fails [OF gw])
    qed
  qed
  show "stepConfig (snd (PythonBuildCommand getenv generalConfig))
     = \<lparr>BuildFlags = [], SetupFlags = [], CreateBOM = False, Publish = False,
        TargetRepositoryPassword = getenv ''PIPER_targetRepositoryPassword'',
        TargetRepositoryUser = getenv ''PIPER_targetRepositoryUser'',
        TargetRepositoryURL = getenv ''PIPER_targetRepositoryURL'',
        BuildSettingsInfo = getenv ''PIPER_buildSettingsInfo'',
        VirutalEnvironmentName = ''piperBuild-env'',
        RequirementsFilePath = ''requirements.txt''\<rparr>"
    by (simp add: PythonBuildCommand_def addPythonBuildFlags_def)
qed

text \<open>
  Claim C6.  In every execution of \<^verbatim>\<open>Run\<close> the error code of the telemetry data is
  set to "1" before \<^verbatim>\<open>pythonBuild\<close> is called, and \<^verbatim>\<open>Run\<close> sets it to "0" only
  after \<^verbatim>\<open>pythonBuild\<close> has returned.  However \<^verbatim>\<open>pythonBuild\<close> ends (it returns,
  it ends the process by a fatal log call, it panics), the handler runs after it: it
  persists the common pipeline environment, removes the secret files of the vault and
  publishes the telemetry data, which carry the error code "0" only when
  \<^verbatim>\<open>pythonBuild\<close> returned (or set it so itself).
\<close>

theorem Run_errorCode_and_handler:
  "(let tel1 = \<lparr>ErrorCode = ''1'', Duration = [], ErrorCategory = [], PiperCommitHash = []\<rparr>;
        result = pythonBuild w (stepConfig s) tel1 (commonPipelineEnvironment s);
        tr = snd (snd (Run w s));
        before = takeWhile (\<lambda>e. \<not> isDomainCall e) tr;
        after = dropWhile (\<lambda>e. \<not> isDomainCall e) tr
    in take 1 after = [PythonBuild_call (stepConfig s) tel1 (commonPipelineEnvironment s)]
     \<and> filter (\<lambda>e. isAssignErrorCode e \<or> isHandlerWork e) before = [Assign_ErrorCode ''1'']
     \<and> filter (\<lambda>e. isAssignErrorCode e \<or> isHandlerWork e) after
       = (if fst result = Returned then [Assign_ErrorCode ''0''] else [])
         @ [Piperenv_SetResourceParameter (EnvRootPath (GeneralConfig s))
              ''commonPipelineEnvironment'' ''custom/buildSettingsInfo''
              (VString (buildSettingsInfo (custom (snd (snd result))))),
            Config_RemoveVaultSecretFiles,
            Telemetry_SetData (fst (snd (Run w s))),
            Telemetry_LogStepTelemetryData]
     \<and> ErrorCode (fst (snd (Run w s)))
       = (if fst result = Returned then ''0'' else ErrorCode (fst (snd result))))"
  by (simp add: Run_trace Run_telemetry Let_def filter_handler_work ErrorCode_handler)

end
